theory Spec2Isabelle
  imports Complex_Main "HOL-Library.Sublist"
begin

section \<open>Values of the program\<close>

text \<open>
  The program is \<^verbatim>\<open>api/main.py\<close>: a TTL cache (\<^verbatim>\<open>cache_get\<close>, \<^verbatim>\<open>cache_set\<close>) and the
  request handler \<^verbatim>\<open>get_weather\<close>. The second handler, \<^verbatim>\<open>autocomplete\<close>, uses the
  same cache under keys that start with \<^verbatim>\<open>autocomplete:\<close> and is not needed here.
  Requests are taken one after the other, each from the cache the previous one left.

  Decoded JSON bodies and the other Python values the handler moves around are values
  of \<open>json\<close>; \<open>JNull\<close> is Python's \<^verbatim>\<open>None\<close>. A dictionary is an association list read
  with \<open>map_of\<close>. A finite float is the rational number it denotes (infinities, NaN and
  the negative zero are not represented). Strings are lists of 8-bit characters: a
  Python string is the list of the bytes of its UTF-8 encoding.
\<close>

datatype json =
    JNull
  | JBool bool
  | JInt int
  | JFloat rat
  | JStr string
  | JArr "json list"
  | JObj "(string \<times> json) list"

text \<open>Truth value testing: \<^verbatim>\<open>if x\<close>, \<^verbatim>\<open>not x\<close>, \<^verbatim>\<open>x or y\<close>.\<close>

fun truthy :: "json \<Rightarrow> bool" where
  "truthy JNull = False"
| "truthy (JBool b) = b"
| "truthy (JInt i) = (i \<noteq> 0)"
| "truthy (JFloat r) = (r \<noteq> 0)"
| "truthy (JStr s) = (s \<noteq> [])"
| "truthy (JArr xs) = (xs \<noteq> [])"
| "truthy (JObj kvs) = (kvs \<noteq> [])"

section \<open>The TTL cache\<close>

text \<open>
  \<^verbatim>\<open>_cache: Dict[str, Dict] = {}\<close>, each entry \<^verbatim>\<open>{"value": ..., "expires_at": ...}\<close>.
  The lock serialises the operations; each one is a function from the cache before to
  the cache after.
\<close>

record entry =
  cvalue :: json
  expires_at :: int

type_synonym cache = "string \<rightharpoonup> entry"

definition CACHE_TTL_SECONDS :: int where
  "CACHE_TTL_SECONDS = 300"

text \<open>
  \<^verbatim>\<open>def _now(): return int(time.time())\<close>. The argument is the reading of
  \<^verbatim>\<open>time.time()\<close>; \<^verbatim>\<open>int\<close> truncates towards zero.
\<close>

definition now_int :: "rat \<Rightarrow> int" where
  "now_int t = (if 0 \<le> t then \<lfloor>t\<rfloor> else \<lceil>t\<rceil>)"

text \<open>
  \<^verbatim>\<open>cache_get(key)\<close> at clock reading \<open>t\<close>: the returned value and the cache after.
  An entry is a dictionary of two keys, so \<^verbatim>\<open>not entry\<close> holds exactly when the key is
  missing.
\<close>

definition cache_get :: "cache \<Rightarrow> rat \<Rightarrow> string \<Rightarrow> json \<times> cache" where
  "cache_get c t key =
     (case c key of
        None \<Rightarrow> (JNull, c)
      | Some e \<Rightarrow>
          if expires_at e < now_int t then (JNull, c(key := None))
          else (cvalue e, c))"

text \<open>\<^verbatim>\<open>cache_set(key, value, ttl)\<close> at clock reading \<open>t\<close>.\<close>

definition cache_set :: "cache \<Rightarrow> rat \<Rightarrow> string \<Rightarrow> json \<Rightarrow> int \<Rightarrow> cache" where
  "cache_set c t key v ttl = c(key \<mapsto> \<lparr>cvalue = v, expires_at = now_int t + ttl\<rparr>)"

section \<open>Strings and numbers of Python\<close>

text \<open>
  \<^verbatim>\<open>str.lower()\<close> on ASCII text: the letters \<^verbatim>\<open>A\<close> to \<^verbatim>\<open>Z\<close> become \<^verbatim>\<open>a\<close> to
  \<^verbatim>\<open>z\<close>. Python also lowers the capital letters outside ASCII, which are left as
  they are here; the result is used only inside the geocoding cache key.
\<close>

definition lower_char :: "char \<Rightarrow> char" where
  "lower_char c =
     (case map_of (zip ''ABCDEFGHIJKLMNOPQRSTUVWXYZ'' ''abcdefghijklmnopqrstuvwxyz'') c of
        None \<Rightarrow> c
      | Some l \<Rightarrow> l)"

definition str_lower :: "string \<Rightarrow> string" where
  "str_lower s = map lower_char s"

text \<open>
  \<^verbatim>\<open>str.strip()\<close> removes leading and trailing white space, the characters for which
  \<^verbatim>\<open>str.isspace()\<close> holds: U+0009 to U+000D, U+001C to U+0020, U+0085, U+00A0, U+1680,
  U+2000 to U+200A, U+2028, U+2029, U+202F, U+205F and U+3000, here each as its UTF-8
  encoding. In UTF-8 text an encoding that starts or ends the string is the first or the
  last character of the text.
\<close>

definition space_encodings :: "string list" where
  "space_encodings =
     [[CHR 0x09], [CHR 0x0A], [CHR 0x0B], [CHR 0x0C], [CHR 0x0D],
      [CHR 0x1C], [CHR 0x1D], [CHR 0x1E], [CHR 0x1F], [CHR 0x20],
      [CHR 0xC2, CHR 0x85], [CHR 0xC2, CHR 0xA0], [CHR 0xE1, CHR 0x9A, CHR 0x80],
      [CHR 0xE2, CHR 0x80, CHR 0x80], [CHR 0xE2, CHR 0x80, CHR 0x81], [CHR 0xE2, CHR 0x80, CHR 0x82],
      [CHR 0xE2, CHR 0x80, CHR 0x83], [CHR 0xE2, CHR 0x80, CHR 0x84], [CHR 0xE2, CHR 0x80, CHR 0x85],
      [CHR 0xE2, CHR 0x80, CHR 0x86], [CHR 0xE2, CHR 0x80, CHR 0x87], [CHR 0xE2, CHR 0x80, CHR 0x88],
      [CHR 0xE2, CHR 0x80, CHR 0x89], [CHR 0xE2, CHR 0x80, CHR 0x8A], [CHR 0xE2, CHR 0x80, CHR 0xA8],
      [CHR 0xE2, CHR 0x80, CHR 0xA9], [CHR 0xE2, CHR 0x80, CHR 0xAF], [CHR 0xE2, CHR 0x81, CHR 0x9F],
      [CHR 0xE3, CHR 0x80, CHR 0x80]]"

function drop_leading :: "string list \<Rightarrow> string \<Rightarrow> string" where
  "drop_leading ws s =
     (case find (\<lambda>w. w \<noteq> [] \<and> prefix w s) ws of
        None \<Rightarrow> s
      | Some w \<Rightarrow> drop_leading ws (drop (length w) s))"
  by pat_completeness auto
termination
  by (relation "measure (\<lambda>(ws, s). length s)") (auto simp: find_Some_iff prefix_def)

definition str_strip :: "string \<Rightarrow> string" where
  "str_strip s =
     rev (drop_leading (map rev space_encodings) (rev (drop_leading space_encodings s)))"

text \<open>
  \<^verbatim>\<open>s.split(sep)\<close> for a separator of one character: the pieces between the
  separators, one more piece than there are separators.
\<close>

fun str_split :: "char \<Rightarrow> string \<Rightarrow> string list" where
  "str_split sep [] = [[]]"
| "str_split sep (c # cs) =
     (if c = sep then [] # str_split sep cs
      else (case str_split sep cs of
              [] \<Rightarrow> [[c]]
            | p # ps \<Rightarrow> (c # p) # ps))"

text \<open>\<^verbatim>\<open>sep.join(xs)\<close>.\<close>

fun str_join :: "string \<Rightarrow> string list \<Rightarrow> string" where
  "str_join sep [] = []"
| "str_join sep [x] = x"
| "str_join sep (x # y # ys) = x @ sep @ str_join sep (y # ys)"

text \<open>\<^verbatim>\<open>str(n)\<close> for an integer: its decimal digits, with a minus sign when negative.\<close>

definition digit_char :: "nat \<Rightarrow> char" where
  "digit_char d =
     (if d = 0 then CHR ''0'' else if d = 1 then CHR ''1'' else if d = 2 then CHR ''2''
      else if d = 3 then CHR ''3'' else if d = 4 then CHR ''4'' else if d = 5 then CHR ''5''
      else if d = 6 then CHR ''6'' else if d = 7 then CHR ''7'' else if d = 8 then CHR ''8''
      else CHR ''9'')"

fun digits :: "nat \<Rightarrow> string" where
  "digits n = (if n < 10 then [digit_char n] else digits (n div 10) @ [digit_char (n mod 10)])"

definition str_int :: "int \<Rightarrow> string" where
  "str_int i = (if i < 0 then ''-'' @ digits (nat (- i)) else digits (nat i))"

text \<open>
  The format specifications \<^verbatim>\<open>:.3f\<close> and \<^verbatim>\<open>:.4f\<close> of a float: the value rounded to
  \<open>d\<close> decimals, to the nearest and to the even digit on a tie, written with a sign
  when negative, at least one digit before the point and exactly \<open>d\<close> after it
  (\<open>0 < d\<close>).
\<close>

definition round_half_even :: "rat \<Rightarrow> int" where
  "round_half_even x =
     (let f = \<lfloor>x\<rfloor>; r = x - of_int f
      in if r < 1 / 2 then f
         else if 1 / 2 < r then f + 1
         else if even f then f else f + 1)"

definition format_fixed :: "nat \<Rightarrow> rat \<Rightarrow> string" where
  "format_fixed d x =
     (let ds = digits (nat (round_half_even (\<bar>x\<bar> * 10 ^ d)));
          padded = replicate (Suc d - length ds) CHR ''0'' @ ds
      in (if x < 0 then ''-'' else [])
         @ take (length padded - d) padded @ ''.'' @ drop (length padded - d) padded)"

text \<open>
  Reading a string of decimal digits back as a number, to state what \<open>format_fixed\<close>
  writes.
\<close>

definition digit_value :: "char \<Rightarrow> nat" where
  "digit_value c = length (takeWhile (\<lambda>d. d \<noteq> c) ''0123456789'')"

definition decimal_value :: "string \<Rightarrow> nat" where
  "decimal_value s = foldl (\<lambda>n c. 10 * n + digit_value c) 0 s"

section \<open>The request handler\<close>

subsection \<open>Data\<close>

definition GEOCODE_URL :: string where
  "GEOCODE_URL = ''https://geocoding-api.open-meteo.com/v1/search''"

definition FORECAST_URL :: string where
  "FORECAST_URL = ''https://api.open-meteo.com/v1/forecast''"

text \<open>
  \<^verbatim>\<open>WEATHERCODE_MAP\<close>; the icons are the bytes of the literals of the source file.
\<close>

record wc_entry =
  desc :: string
  icon :: string

definition WEATHERCODE_MAP :: "(int \<times> wc_entry) list" where
  "WEATHERCODE_MAP =
    [(0, \<lparr>desc = ''Clear sky'', icon = [CHR 0xC3, CHR 0xA2, CHR 0xCB, CHR 0x9C, CHR 0xE2, CHR 0x82, CHR 0xAC, CHR 0xC3, CHR 0xAF, CHR 0xC2, CHR 0xB8]\<rparr>),
     (1, \<lparr>desc = ''Mainly clear'', icon = [CHR 0xC3, CHR 0xB0, CHR 0xC5, CHR 0xB8, CHR 0xC5, CHR 0x92, CHR 0xC2, CHR 0xA4, CHR 0xC3, CHR 0xAF, CHR 0xC2, CHR 0xB8]\<rparr>),
     (2, \<lparr>desc = ''Partly cloudy'', icon = [CHR 0xC3, CHR 0xA2, CHR 0xE2, CHR 0x80, CHR 0xBA, CHR 0xE2, CHR 0x80, CHR 0xA6]\<rparr>),
     (3, \<lparr>desc = ''Overcast'', icon = [CHR 0xC3, CHR 0xA2, CHR 0xCB, CHR 0x9C, CHR 0xC3, CHR 0xAF, CHR 0xC2, CHR 0xB8]\<rparr>),
     (45, \<lparr>desc = ''Fog'', icon = [CHR 0xC3, CHR 0xB0, CHR 0xC5, CHR 0xB8, CHR 0xC5, CHR 0x92, CHR 0xC2, CHR 0xAB, CHR 0xC3, CHR 0xAF, CHR 0xC2, CHR 0xB8]\<rparr>),
     (48, \<lparr>desc = ''Depositing rime fog'', icon = [CHR 0xC3, CHR 0xB0, CHR 0xC5, CHR 0xB8, CHR 0xC5, CHR 0x92, CHR 0xC2, CHR 0xAB, CHR 0xC3, CHR 0xAF, CHR 0xC2, CHR 0xB8]\<rparr>),
     (51, \<lparr>desc = ''Light drizzle'', icon = [CHR 0xC3, CHR 0xB0, CHR 0xC5, CHR 0xB8, CHR 0xC5, CHR 0x92, CHR 0xC2, CHR 0xA6, CHR 0xC3, CHR 0xAF, CHR 0xC2, CHR 0xB8]\<rparr>),
     (53, \<lparr>desc = ''Moderate drizzle'', icon = [CHR 0xC3, CHR 0xB0, CHR 0xC5, CHR 0xB8, CHR 0xC5, CHR 0x92, CHR 0xC2, CHR 0xA6, CHR 0xC3, CHR 0xAF, CHR 0xC2, CHR 0xB8]\<rparr>),
     (55, \<lparr>desc = ''Dense drizzle'', icon = [CHR 0xC3, CHR 0xB0, CHR 0xC5, CHR 0xB8, CHR 0xC5, CHR 0x92, CHR 0xC2, CHR 0xA7, CHR 0xC3, CHR 0xAF, CHR 0xC2, CHR 0xB8]\<rparr>),
     (61, \<lparr>desc = ''Slight rain'', icon = [CHR 0xC3, CHR 0xB0, CHR 0xC5, CHR 0xB8, CHR 0xC5, CHR 0x92, CHR 0xC2, CHR 0xA7, CHR 0xC3, CHR 0xAF, CHR 0xC2, CHR 0xB8]\<rparr>),
     (63, \<lparr>desc = ''Moderate rain'', icon = [CHR 0xC3, CHR 0xB0, CHR 0xC5, CHR 0xB8, CHR 0xC5, CHR 0x92, CHR 0xC2, CHR 0xA7, CHR 0xC3, CHR 0xAF, CHR 0xC2, CHR 0xB8]\<rparr>),
     (65, \<lparr>desc = ''Heavy rain'', icon = [CHR 0xC3, CHR 0xA2, CHR 0xE2, CHR 0x80, CHR 0xBA, CHR 0xCB, CHR 0x86, CHR 0xC3, CHR 0xAF, CHR 0xC2, CHR 0xB8]\<rparr>),
     (71, \<lparr>desc = ''Slight snow'', icon = [CHR 0xC3, CHR 0xB0, CHR 0xC5, CHR 0xB8, CHR 0xC5, CHR 0x92, CHR 0xC2, CHR 0xA8, CHR 0xC3, CHR 0xAF, CHR 0xC2, CHR 0xB8]\<rparr>),
     (73, \<lparr>desc = ''Moderate snow'', icon = [CHR 0xC3, CHR 0xB0, CHR 0xC5, CHR 0xB8, CHR 0xC5, CHR 0x92, CHR 0xC2, CHR 0xA8, CHR 0xC3, CHR 0xAF, CHR 0xC2, CHR 0xB8]\<rparr>),
     (75, \<lparr>desc = ''Heavy snow'', icon = [CHR 0xC3, CHR 0xA2, CHR 0xE2, CHR 0x80, CHR 0x9E, CHR 0xC3, CHR 0xAF, CHR 0xC2, CHR 0xB8]\<rparr>),
     (80, \<lparr>desc = ''Rain showers'', icon = [CHR 0xC3, CHR 0xB0, CHR 0xC5, CHR 0xB8, CHR 0xC5, CHR 0x92, CHR 0xC2, CHR 0xA7, CHR 0xC3, CHR 0xAF, CHR 0xC2, CHR 0xB8]\<rparr>),
     (95, \<lparr>desc = ''Thunderstorm'', icon = [CHR 0xC3, CHR 0xA2, CHR 0xE2, CHR 0x80, CHR 0xBA, CHR 0xCB, CHR 0x86, CHR 0xC3, CHR 0xAF, CHR 0xC2, CHR 0xB8]\<rparr>)]"

definition fallback_icon :: string where
  "fallback_icon = [CHR 0xC3, CHR 0xB0, CHR 0xC5, CHR 0xB8, CHR 0xC5, CHR 0x92, CHR 0xCB, CHR 0x86]"

text \<open>The dictionary \<^verbatim>\<open>location\<close> and the dictionary the handler returns.\<close>

record Location =
  name :: json
  latitude :: rat
  longitude :: rat
  country :: json
  admin1 :: json

record WeatherResponse =
  location :: Location
  current :: json
  hourly :: json
  weather_desc :: string
  weather_icon :: string

text \<open>
  How a request ends when it does not return: an \<^verbatim>\<open>HTTPException\<close> of the handler with
  its status code and detail, an exception of \<^verbatim>\<open>fetch_json\<close> (time-out, connection
  failure, \<^verbatim>\<open>raise_for_status\<close>, a body that is not JSON), or another Python exception
  (\<^verbatim>\<open>AttributeError\<close>, \<^verbatim>\<open>TypeError\<close>, \<^verbatim>\<open>KeyError\<close>, \<^verbatim>\<open>ValueError\<close>, ...). The
  handler catches neither of the last two; the framework answers 500.
\<close>

datatype error =
    HTTPException nat string
  | HttpxError
  | PyException

fun status_code :: "error \<Rightarrow> nat" where
  "status_code (HTTPException s d) = s"
| "status_code HttpxError = 500"
| "status_code PyException = 500"

text \<open>
  What lies outside the program: the two upstream services behind \<^verbatim>\<open>client.get\<close>
  (\<open>None\<close> when the call raises), and the Python built-ins whose result depends on the
  binary representation of floats or on parsing text: \<^verbatim>\<open>float\<close> of a string or of an
  integer beyond \<open>2 ^ 53\<close> (\<open>None\<close> when it raises), \<^verbatim>\<open>str\<close> of a float or of a
  container.
\<close>

record env =
  http_get :: "string \<Rightarrow> (string \<times> json) list \<Rightarrow> json option"
  float_conv :: "json \<Rightarrow> rat option"
  repr :: "json \<Rightarrow> string"

text \<open>
  The readings of \<^verbatim>\<open>time.time()\<close> at the four cache operations one request can
  perform.
\<close>

record clock =
  t_geo_get :: rat
  t_geo_set :: rat
  t_fc_get :: rat
  t_fc_set :: rat

text \<open>The effects of a request, in the order they happen.\<close>

datatype event =
    CacheGet string
  | CacheSet string json
  | Fetch string "(string \<times> json) list"

record 'a outcome =
  result :: "error + 'a"
  cache_after :: cache
  trace :: "event list"

subsection \<open>Built-ins on decoded JSON\<close>

text \<open>\<^verbatim>\<open>fetch_json(client, url, params)\<close>.\<close>

definition fetch_json :: "env \<Rightarrow> string \<Rightarrow> (string \<times> json) list \<Rightarrow> error + json" where
  "fetch_json env url params =
     (case http_get env url params of
        None \<Rightarrow> Inl HttpxError
      | Some body \<Rightarrow> Inr body)"

text \<open>\<^verbatim>\<open>x.get(k, d)\<close>: only a dictionary has the method.\<close>

definition dict_get :: "json \<Rightarrow> string \<Rightarrow> json \<Rightarrow> error + json" where
  "dict_get x k d =
     (case x of
        JObj kvs \<Rightarrow> Inr (case map_of kvs k of None \<Rightarrow> d | Some v \<Rightarrow> v)
      | _ \<Rightarrow> Inl PyException)"

text \<open>\<^verbatim>\<open>x[0]\<close>.\<close>

fun index0 :: "json \<Rightarrow> error + json" where
  "index0 (JArr (x # xs)) = Inr x"
| "index0 (JStr (c # cs)) = Inr (JStr [c])"
| "index0 x = Inl PyException"

text \<open>\<^verbatim>\<open>float(x)\<close>.\<close>

fun py_float :: "env \<Rightarrow> json \<Rightarrow> rat option" where
  "py_float env (JFloat r) = Some r"
| "py_float env (JBool b) = Some (if b then 1 else 0)"
| "py_float env (JInt i) = (if \<bar>i\<bar> \<le> 2 ^ 53 then Some (of_int i) else float_conv env (JInt i))"
| "py_float env (JStr s) = float_conv env (JStr s)"
| "py_float env x = None"

text \<open>\<^verbatim>\<open>str(x)\<close>.\<close>

fun py_str :: "env \<Rightarrow> json \<Rightarrow> string" where
  "py_str env JNull = ''None''"
| "py_str env (JBool b) = (if b then ''True'' else ''False'')"
| "py_str env (JInt i) = str_int i"
| "py_str env (JStr s) = s"
| "py_str env x = repr env x"

text \<open>
  \<^verbatim>\<open>WEATHERCODE_MAP.get(wc, None)\<close>: the keys are integers; a boolean and a float
  equal to an integer hash and compare as that integer, a list or a dictionary cannot
  be hashed.
\<close>

fun weathercode_get :: "json \<Rightarrow> error + wc_entry option" where
  "weathercode_get JNull = Inr None"
| "weathercode_get (JBool b) = Inr (map_of WEATHERCODE_MAP (if b then 1 else 0))"
| "weathercode_get (JInt i) = Inr (map_of WEATHERCODE_MAP i)"
| "weathercode_get (JFloat r) =
     Inr (if r = of_int \<lfloor>r\<rfloor> then map_of WEATHERCODE_MAP \<lfloor>r\<rfloor> else None)"
| "weathercode_get (JStr s) = Inr None"
| "weathercode_get x = Inl PyException"

subsection \<open>\<^verbatim>\<open>get_weather\<close>\<close>

text \<open>
  The handler is given in the three parts its comments name: the coordinates
  (lines 130 to 167), the forecast (lines 169 to 188), the response (lines 190 to 208);
  \<open>get_weather\<close> puts the guard of line 127 before them.
\<close>

definition fail :: "error \<Rightarrow> cache \<Rightarrow> event list \<Rightarrow> 'a outcome" where
  "fail e c tr = \<lparr>result = Inl e, cache_after = c, trace = tr\<rparr>"

text \<open>\<^verbatim>\<open>not city\<close> is false exactly for a city that is given and not empty.\<close>

definition city_given :: "string option \<Rightarrow> bool" where
  "city_given city = (case city of None \<Rightarrow> False | Some s \<Rightarrow> s \<noteq> [])"

definition geocode_key :: "string \<Rightarrow> string" where
  "geocode_key city = ''geocode:'' @ str_lower city"

definition geocode_params :: "string \<Rightarrow> (string \<times> json) list" where
  "geocode_params city =
     [(''name'', JStr city), (''count'', JInt 1), (''language'', JStr ''en''),
      (''format'', JStr ''json'')]"

text \<open>\<^verbatim>\<open>geocode.get("results", []) if geocode else []\<close>.\<close>

definition geocode_results :: "json \<Rightarrow> error + json" where
  "geocode_results geocode =
     (if truthy geocode then dict_get geocode ''results'' (JArr []) else Inr (JArr []))"

text \<open>
  Lines 155 to 167, from the candidate \<^verbatim>\<open>top\<close>, cached or fresh (here \<open>top0\<close>), to
  the location. Every \<^verbatim>\<open>top.get\<close> raises when the candidate is not a dictionary.
\<close>

definition location_of_top :: "env \<Rightarrow> string \<Rightarrow> json \<Rightarrow> error + Location" where
  "location_of_top env city top0 =
     (case top0 of
        JObj kvs \<Rightarrow>
          (let get = (\<lambda>k. case map_of kvs k of None \<Rightarrow> JNull | Some v \<Rightarrow> v);
               nm = (if truthy (get ''name'') then get ''name'' else JStr city);
               lat = get ''latitude'';
               lon = get ''longitude''
           in if lat = JNull \<or> lon = JNull
              then Inl (HTTPException 502 ''Upstream geocoding did not return coordinates'')
              else (case py_float env lat of
                      None \<Rightarrow> Inl PyException
                    | Some a \<Rightarrow>
                        (case py_float env lon of
                           None \<Rightarrow> Inl PyException
                         | Some b \<Rightarrow>
                             Inr \<lparr>name = nm, latitude = a, longitude = b,
                                  country = get ''country'', admin1 = get ''admin1''\<rparr>)))
      | _ \<Rightarrow> Inl PyException)"

definition not_found_detail :: "string \<Rightarrow> string" where
  "not_found_detail city = ''City '' @ [CHR 0x27] @ city @ [CHR 0x27] @ '' not found''"

definition determine_coordinates ::
  "env \<Rightarrow> clock \<Rightarrow> cache \<Rightarrow> string option \<Rightarrow> rat option \<Rightarrow> rat option \<Rightarrow> Location outcome" where
  "determine_coordinates env clk c city lat lon =
     (if lat \<noteq> None \<and> lon \<noteq> None then
        \<lparr>result = Inr \<lparr>name = JStr (if city_given city then the city
                                      else format_fixed 3 (the lat) @ '','' @ format_fixed 3 (the lon)),
                        latitude = the lat, longitude = the lon,
                        country = JNull, admin1 = JNull\<rparr>,
         cache_after = c, trace = []\<rparr>
      else
        (case city of
           None \<Rightarrow> fail PyException c []
         | Some cty \<Rightarrow>
             (let geokey = geocode_key cty;
                  (cached_geo, c1) = cache_get c (t_geo_get clk) geokey
              in if cached_geo \<noteq> JNull then
                   \<lparr>result = location_of_top env cty cached_geo,
                    cache_after = c1, trace = [CacheGet geokey]\<rparr>
                 else
                   (let params = geocode_params cty;
                        tr = [CacheGet geokey, Fetch GEOCODE_URL params]
                    in case fetch_json env GEOCODE_URL params of
                         Inl e \<Rightarrow> fail e c1 tr
                       | Inr geocode \<Rightarrow>
                           (case geocode_results geocode of
                              Inl e \<Rightarrow> fail e c1 tr
                            | Inr results \<Rightarrow>
                                if \<not> truthy results then
                                  fail (HTTPException 404 (not_found_detail cty)) c1 tr
                                else
                                  (case index0 results of
                                     Inl e \<Rightarrow> fail e c1 tr
                                   | Inr top0 \<Rightarrow>
                                       \<lparr>result = location_of_top env cty top0,
                                        cache_after =
                                          cache_set c1 (t_geo_set clk) geokey top0 CACHE_TTL_SECONDS,
                                        trace = tr @ [CacheSet geokey top0]\<rparr>))))))"

text \<open>
  \<^verbatim>\<open>hourly_list = [v.strip() for v in (hourly_vars or "").split(",") if v.strip()]\<close>
\<close>

definition hourly_list :: "string option \<Rightarrow> string list" where
  "hourly_list hourly_vars =
     [str_strip v. v \<leftarrow> str_split CHR '','' (case hourly_vars of None \<Rightarrow> [] | Some s \<Rightarrow> s),
                   str_strip v \<noteq> []]"

text \<open>The dictionary \<^verbatim>\<open>forecast_params\<close>, without the entries that are \<^verbatim>\<open>None\<close>.\<close>

definition forecast_params :: "Location \<Rightarrow> string list \<Rightarrow> (string \<times> json) list" where
  "forecast_params loc hl =
     filter (\<lambda>(k, v). v \<noteq> JNull)
       [(''latitude'', JFloat (latitude loc)),
        (''longitude'', JFloat (longitude loc)),
        (''current_weather'', JBool True),
        (''hourly'', if hl \<noteq> [] then JStr (str_join '','' hl) else JNull),
        (''timezone'', JStr ''auto''),
        (''forecast_days'', JInt 1)]"

definition cache_key :: "Location \<Rightarrow> string list \<Rightarrow> string" where
  "cache_key loc hl =
     ''forecast:'' @ format_fixed 4 (latitude loc) @ '','' @ format_fixed 4 (longitude loc)
       @ '':'' @ str_join '','' hl"

definition get_forecast :: "env \<Rightarrow> clock \<Rightarrow> cache \<Rightarrow> Location \<Rightarrow> string list \<Rightarrow> json outcome" where
  "get_forecast env clk c loc hl =
     (let params = forecast_params loc hl;
          key = cache_key loc hl;
          (cached_forecast, c1) = cache_get c (t_fc_get clk) key
      in if cached_forecast \<noteq> JNull then
           \<lparr>result = Inr cached_forecast, cache_after = c1, trace = [CacheGet key]\<rparr>
         else
           (case fetch_json env FORECAST_URL params of
              Inl e \<Rightarrow> fail e c1 [CacheGet key, Fetch FORECAST_URL params]
            | Inr forecast \<Rightarrow>
                \<lparr>result = Inr forecast,
                 cache_after = cache_set c1 (t_fc_set clk) key forecast CACHE_TTL_SECONDS,
                 trace = [CacheGet key, Fetch FORECAST_URL params, CacheSet key forecast]\<rparr>))"

text \<open>
  Lines 196 to 200: from \<^verbatim>\<open>wc = current.get("weathercode")\<close> to the description and
  the icon.
\<close>

definition map_weathercode :: "env \<Rightarrow> json \<Rightarrow> error + string \<times> string" where
  "map_weathercode env wc =
     (case weathercode_get wc of
        Inl e \<Rightarrow> Inl e
      | Inr wc_entry \<Rightarrow>
          Inr (case wc_entry of
                 Some e \<Rightarrow> desc e
               | None \<Rightarrow> if wc \<noteq> JNull then ''Weather code '' @ py_str env wc else [],
               case wc_entry of
                 Some e \<Rightarrow> icon e
               | None \<Rightarrow> fallback_icon))"

definition build_response :: "env \<Rightarrow> Location \<Rightarrow> json \<Rightarrow> error + WeatherResponse" where
  "build_response env loc forecast =
     (case dict_get forecast ''current_weather'' JNull of
        Inl e \<Rightarrow> Inl e
      | Inr cur \<Rightarrow>
          (case dict_get forecast ''hourly'' (JObj []) of
             Inl e \<Rightarrow> Inl e
           | Inr hrly \<Rightarrow>
               if cur = JNull then
                 Inl (HTTPException 502 ''No current weather returned by upstream API'')
               else
                 (case dict_get cur ''weathercode'' JNull of
                    Inl e \<Rightarrow> Inl e
                  | Inr wc \<Rightarrow>
                      (case map_weathercode env wc of
                         Inl e \<Rightarrow> Inl e
                       | Inr (d, i) \<Rightarrow>
                           Inr \<lparr>location = loc, current = cur, hourly = hrly,
                                weather_desc = d, weather_icon = i\<rparr>))))"

text \<open>Lines 169 to 208, for the location found.\<close>

definition weather_at ::
  "env \<Rightarrow> clock \<Rightarrow> cache \<Rightarrow> Location \<Rightarrow> string option \<Rightarrow> WeatherResponse outcome" where
  "weather_at env clk c loc hourly_vars =
     (let o2 = get_forecast env clk c loc (hourly_list hourly_vars)
      in case result o2 of
           Inl e \<Rightarrow> fail e (cache_after o2) (trace o2)
         | Inr forecast \<Rightarrow>
             \<lparr>result = build_response env loc forecast,
              cache_after = cache_after o2, trace = trace o2\<rparr>)"

definition get_weather ::
  "env \<Rightarrow> clock \<Rightarrow> cache \<Rightarrow> string option \<Rightarrow> rat option \<Rightarrow> rat option \<Rightarrow> string option
     \<Rightarrow> WeatherResponse outcome" where
  "get_weather env clk c city lat lon hourly_vars =
     (if \<not> city_given city \<and> (lat = None \<or> lon = None) then
        fail (HTTPException 400 ''Provide either city or lat and lon'') c []
      else
        (let o1 = determine_coordinates env clk c city lat lon
         in case result o1 of
              Inl e \<Rightarrow> fail e (cache_after o1) (trace o1)
            | Inr loc \<Rightarrow>
                (let o2 = weather_at env clk (cache_after o1) loc hourly_vars
                 in o2\<lparr>trace := trace o1 @ trace o2\<rparr>)))"

subsection \<open>Counting upstream calls\<close>

text \<open>The number of calls to the forecast service among the effects of a request.\<close>

fun is_forecast_call :: "event \<Rightarrow> bool" where
  "is_forecast_call (Fetch url params) = (url = FORECAST_URL)"
| "is_forecast_call ev = False"

definition forecast_calls :: "event list \<Rightarrow> nat" where
  "forecast_calls tr = length (filter is_forecast_call tr)"

subsection \<open>Concrete inputs\<close>

text \<open>
  An upstream that answers every geocoding call with \<open>geo\<close> and every forecast call
  with \<open>fc\<close> (\<open>None\<close>: the call raises), a clock that reads \<open>t\<close> throughout a
  request, and the location of the request \<^verbatim>\<open>lat=40.7128&lon=-74.0060\<close>.
\<close>

definition stub_env :: "json option \<Rightarrow> json option \<Rightarrow> env" where
  "stub_env geo fc =
     \<lparr>http_get = (\<lambda>url params. if url = GEOCODE_URL then geo
                                 else if url = FORECAST_URL then fc else None),
      float_conv = (\<lambda>x. None),
      repr = (\<lambda>x. [])\<rparr>"

definition at_time :: "rat \<Rightarrow> clock" where
  "at_time t = \<lparr>t_geo_get = t, t_geo_set = t, t_fc_get = t, t_fc_set = t\<rparr>"

definition new_york :: Location where
  "new_york = \<lparr>name = JStr ''40.713,-74.006'', latitude = 40.7128, longitude = - 74.006,
               country = JNull, admin1 = JNull\<rparr>"

section \<open>Properties of the cache\<close>

lemma floor_rat_numeral_div: "\<lfloor>numeral a / numeral b :: rat\<rfloor> = numeral a div numeral b"
  using floor_divide_of_int_eq [of "numeral a" "numeral b", where ?'a = rat] by simp

text \<open>Evaluation of \<open>digits\<close> on numerals, one digit at a time.\<close>

lemma digits_0: "digits 0 = ''0''"
  by (simp add: digit_char_def)

lemma digits_1: "digits 1 = ''1''"
  by (simp add: digit_char_def)

lemma digits_numeral:
  "digits (numeral k) =
     (if numeral k < (10::nat) then [digit_char (numeral k)]
      else digits (numeral k div 10) @ [digit_char (numeral k mod 10)])"
  by (rule digits.simps)

declare digits.simps [simp del]

lemmas digits_eval = digits_0 digits_1 digits_numeral digit_char_def

lemma replicate_numeral: "replicate (numeral k) x = x # replicate (pred_numeral k) x"
  by (simp add: numeral_eq_Suc)

lemmas format_eval =
  format_fixed_def round_half_even_def str_int_def digits_eval Let_def floor_rat_numeral_div
  replicate_numeral

lemma now_int_floor: "0 \<le> t \<Longrightarrow> now_int t = \<lfloor>t\<rfloor>"
  by (simp add: now_int_def)

lemma cache_get_absent: "c key = None \<Longrightarrow> cache_get c t key = (JNull, c)"
  by (simp add: cache_get_def)

lemma cache_get_expired:
  "c key = Some e \<Longrightarrow> expires_at e < now_int t \<Longrightarrow> cache_get c t key = (JNull, c(key := None))"
  by (simp add: cache_get_def)

lemma cache_get_live:
  "c key = Some e \<Longrightarrow> \<not> expires_at e < now_int t \<Longrightarrow> cache_get c t key = (cvalue e, c)"
  by (simp add: cache_get_def)

text \<open>
  C3. A \<open>cache_get\<close> after the entry's expiry time has passed returns \<^verbatim>\<open>None\<close> and
  removes the entry; it leaves the same result and the same cache as the read of a cache
  that never held the key; and every later \<open>cache_get\<close> of the key, at any clock
  reading, returns \<^verbatim>\<open>None\<close> again.
\<close>

theorem expired_entry_is_absent:
  assumes "c key = Some e" and "expires_at e < now_int t"
  shows "fst (cache_get c t key) = JNull
       \<and> snd (cache_get c t key) = c(key := None)
       \<and> cache_get c t key = cache_get (c(key := None)) t key
       \<and> fst (cache_get (snd (cache_get c t key)) t' key) = JNull"
proof -
  have g: "cache_get c t key = (JNull, c(key := None))"
    using assms by (rule cache_get_expired)
  have a: "cache_get (c(key := None)) t' key = (JNull, c(key := None))" for t'
    by (rule cache_get_absent) simp
  show ?thesis by (simp add: g a)
qed

theorem expired_entry_is_absent_witness:
  "fst (cache_get (cache_set Map.empty 1000 ''k'' (JInt 7) 1) 1002 ''k'') = JNull
   \<and> snd (cache_get (cache_set Map.empty 1000 ''k'' (JInt 7) 1) 1002 ''k'') ''k'' = None
   \<and> fst (cache_get (snd (cache_get (cache_set Map.empty 1000 ''k'' (JInt 7) 1) 1002 ''k'')) 1000 ''k'')
       = JNull"
  using expired_entry_is_absent
    [of "cache_set Map.empty 1000 ''k'' (JInt 7) 1" "''k''"
        "\<lparr>cvalue = JInt 7, expires_at = 1001\<rparr>" 1002 1000]
  by (simp add: cache_set_def cache_get_def now_int_def)

text \<open>
  C10. Expiry is strict and counted in whole seconds. \<open>now_int\<close> truncates the clock
  reading (the floor of a reading that is not negative, the ceiling of a negative one);
  after
  \<open>cache_set\<close> at reading \<open>t0\<close> with \<open>ttl\<close> the entry expires at
  \<open>E = now_int t0 + ttl\<close>; a \<open>cache_get\<close> at reading \<open>t1\<close> returns the stored value
  and keeps the entry exactly when \<open>now_int t1 \<le> E\<close>, in particular when
  \<open>now_int t1 = E\<close>, and evicts it exactly when \<open>E < now_int t1\<close>; so the value is
  returned at every reading \<open>t1\<close> with \<open>0 \<le> t1 < E + 1\<close>, the whole of second \<open>E\<close>.
\<close>

theorem expiry_strict_whole_seconds:
  "(0 \<le> t1 \<longrightarrow> now_int t1 = \<lfloor>t1\<rfloor>)
   \<and> (t1 < 0 \<longrightarrow> now_int t1 = \<lceil>t1\<rceil>)
   \<and> (cache_set c t0 key v ttl) key = Some \<lparr>cvalue = v, expires_at = now_int t0 + ttl\<rparr>
   \<and> (now_int t1 = now_int t0 + ttl \<longrightarrow>
        cache_get (cache_set c t0 key v ttl) t1 key = (v, cache_set c t0 key v ttl))
   \<and> (now_int t1 \<le> now_int t0 + ttl \<longrightarrow>
        cache_get (cache_set c t0 key v ttl) t1 key = (v, cache_set c t0 key v ttl))
   \<and> (now_int t0 + ttl < now_int t1 \<longrightarrow>
        cache_get (cache_set c t0 key v ttl) t1 key = (JNull, c(key := None)))
   \<and> (0 \<le> t1 \<and> t1 < of_int (now_int t0 + ttl) + 1 \<longrightarrow>
        fst (cache_get (cache_set c t0 key v ttl) t1 key) = v)"
proof -
  let ?E = "now_int t0 + ttl"
  have trunc: "0 \<le> t1 \<longrightarrow> now_int t1 = \<lfloor>t1\<rfloor>"
    by (simp add: now_int_def)
  have trunc_neg: "t1 < 0 \<longrightarrow> now_int t1 = \<lceil>t1\<rceil>"
    by (simp add: now_int_def)
  have stored: "(cache_set c t0 key v ttl) key = Some \<lparr>cvalue = v, expires_at = ?E\<rparr>"
    by (simp add: cache_set_def)
  have live: "cache_get (cache_set c t0 key v ttl) t1 key = (v, cache_set c t0 key v ttl)"
    if "now_int t1 \<le> ?E"
    using that by (simp add: cache_get_def cache_set_def)
  have gone: "cache_get (cache_set c t0 key v ttl) t1 key = (JNull, c(key := None))"
    if "?E < now_int t1"
    using that by (simp add: cache_get_def cache_set_def)
  have second: "now_int t1 \<le> ?E" if "0 \<le> t1" and "t1 < of_int ?E + 1"
  proof -
    have "t1 < of_int (?E + 1)"
      using that(2) by simp
    then have "\<lfloor>t1\<rfloor> < ?E + 1"
      by (simp only: floor_less_iff)
    then show ?thesis
      using that(1) by (simp add: now_int_def)
  qed
  show ?thesis
    using trunc trunc_neg stored live gone second by simp
qed

theorem expiry_strict_whole_seconds_witness:
  "cache_get (cache_set Map.empty (1000.7) ''k'' (JInt 7) 300) (1300.9) ''k''
     = (JInt 7, cache_set Map.empty (1000.7) ''k'' (JInt 7) 300)
   \<and> cache_get (cache_set Map.empty (1000.7) ''k'' (JInt 7) 300) 1301 ''k''
     = (JNull, Map.empty)"
  using expiry_strict_whole_seconds [of "1300.9" Map.empty "1000.7" "''k''" "JInt 7" 300]
    expiry_strict_whole_seconds [of 1301 Map.empty "1000.7" "''k''" "JInt 7" 300]
  by (simp add: now_int_def floor_rat_numeral_div)

section \<open>Properties of the string operations\<close>

lemma str_split_not_Nil: "str_split sep s \<noteq> []"
  by (induction s) (auto split: list.splits)

lemma str_join_Cons: "ps \<noteq> [] \<Longrightarrow> str_join sep (p # ps) = p @ sep @ str_join sep ps"
  by (cases ps) simp_all

lemma str_join_split: "str_join [sep] (str_split sep s) = s"
proof (induction s)
  case Nil
  show ?case by simp
next
  case (Cons c cs)
  show ?case
  proof (cases "c = sep")
    case True
    then show ?thesis
      using Cons.IH by (simp add: str_join_Cons str_split_not_Nil)
  next
    case False
    obtain p ps where sp: "str_split sep cs = p # ps"
      using str_split_not_Nil [of sep cs] by (cases "str_split sep cs") auto
    have "str_join [sep] ((c # p) # ps) = c # str_join [sep] (p # ps)"
      by (cases ps) simp_all
    then show ?thesis
      using False Cons.IH sp by simp
  qed
qed

lemma str_split_no_sep: "p \<in> set (str_split sep s) \<Longrightarrow> sep \<notin> set p"
proof (induction s arbitrary: p)
  case Nil
  then show ?case by simp
next
  case (Cons c cs)
  then show ?case
    by (auto split: if_splits list.splits)
qed

lemma str_split_sep_free: "sep \<notin> set p \<Longrightarrow> str_split sep p = [p]"
  by (induction p) auto

lemma str_split_append_sep:
  "sep \<notin> set p \<Longrightarrow> str_split sep (p @ sep # r) = p # str_split sep r"
  by (induction p) auto

lemma str_split_join:
  "ps \<noteq> [] \<Longrightarrow> \<forall>p\<in>set ps. sep \<notin> set p \<Longrightarrow> str_split sep (str_join [sep] ps) = ps"
proof (induction ps)
  case Nil
  then show ?case by simp
next
  case (Cons p ps)
  show ?case
  proof (cases ps)
    case Nil
    then show ?thesis using Cons.prems by (simp add: str_split_sep_free)
  next
    case (Cons q qs)
    then have "str_join [sep] (p # ps) = p @ sep # str_join [sep] ps"
      by simp
    moreover have "str_split sep (str_join [sep] ps) = ps"
      using Cons.IH Cons.prems Cons by simp
    ultimately show ?thesis
      using Cons.prems by (simp add: str_split_append_sep)
  qed
qed

lemma str_join_inj:
  assumes "\<forall>p\<in>set ps. sep \<notin> set p \<and> p \<noteq> []" and "\<forall>p\<in>set qs. sep \<notin> set p \<and> p \<noteq> []"
    and "str_join [sep] ps = str_join [sep] qs"
  shows "ps = qs"
proof (cases "ps = []")
  case True
  show ?thesis
  proof (cases "qs = []")
    case True with \<open>ps = []\<close> show ?thesis by simp
  next
    case False
    then have "str_split sep (str_join [sep] qs) = qs"
      using assms(2) by (simp add: str_split_join)
    then have "qs = [[]]" using assms(3) True by simp
    then show ?thesis using assms(2) by simp
  qed
next
  case False
  then have ps: "str_split sep (str_join [sep] ps) = ps"
    using assms(1) by (simp add: str_split_join)
  show ?thesis
  proof (cases "qs = []")
    case True
    then have "ps = [[]]" using ps assms(3) by simp
    then show ?thesis using assms(1) by simp
  next
    case False
    then have "str_split sep (str_join [sep] qs) = qs"
      using assms(2) by (simp add: str_split_join)
    then show ?thesis using ps assms(3) by simp
  qed
qed

declare drop_leading.simps [simp del]

lemma drop_leading_eval:
  "drop_leading ws s =
     (case find (\<lambda>w. w \<noteq> [] \<and> prefix w s) ws of
        None \<Rightarrow> s
      | Some w \<Rightarrow> drop_leading ws (drop (length w) s))"
  by (rule drop_leading.simps)

text \<open>A string made of encodings from \<open>ws\<close> only.\<close>

lemma drop_leading_decomp:
  "\<exists>us. set us \<subseteq> set ws \<and> s = concat us @ drop_leading ws s"
proof (induction ws s rule: drop_leading.induct)
  case (1 ws s)
  show ?case
  proof (cases "find (\<lambda>w. w \<noteq> [] \<and> prefix w s) ws")
    case None
    then have "drop_leading ws s = s"
      by (subst drop_leading.simps) simp
    then have "set [] \<subseteq> set ws \<and> s = concat [] @ drop_leading ws s"
      by simp
    then show ?thesis by blast
  next
    case (Some w)
    then have w: "w \<in> set ws" "prefix w s"
      by (auto simp: find_Some_iff)
    have d: "drop_leading ws s = drop_leading ws (drop (length w) s)"
      using Some by (subst drop_leading.simps) simp
    obtain us where us: "set us \<subseteq> set ws"
      "drop (length w) s = concat us @ drop_leading ws (drop (length w) s)"
      using 1 [OF Some] by blast
    have "s = w @ drop (length w) s"
      using w(2) by (auto simp: prefix_def)
    then have "s = concat (w # us) @ drop_leading ws s"
      using us(2) d by simp
    moreover have "set (w # us) \<subseteq> set ws"
      using w(1) us(1) by simp
    ultimately show ?thesis by blast
  qed
qed

lemma drop_leading_no_prefix:
  "w \<in> set ws \<Longrightarrow> w \<noteq> [] \<Longrightarrow> \<not> prefix w (drop_leading ws s)"
proof (induction ws s rule: drop_leading.induct)
  case (1 ws s)
  show ?case
  proof (cases "find (\<lambda>w. w \<noteq> [] \<and> prefix w s) ws")
    case None
    then have "drop_leading ws s = s"
      by (subst drop_leading.simps) simp
    moreover have "\<not> prefix w s"
      using None 1(2,3) by (auto simp: find_None_iff)
    ultimately show ?thesis by simp
  next
    case (Some v)
    then have "drop_leading ws s = drop_leading ws (drop (length v) s)"
      by (subst drop_leading.simps) simp
    then show ?thesis
      using 1(1) [OF Some 1(2) 1(3)] by simp
  qed
qed

lemma set_drop_leading: "set (drop_leading ws s) \<subseteq> set s"
proof -
  obtain us where "s = concat us @ drop_leading ws s"
    using drop_leading_decomp [of ws s] by blast
  then have "set s = set (concat us) \<union> set (drop_leading ws s)"
    by (metis set_append)
  then show ?thesis by blast
qed

lemma space_encodings_nonempty: "w \<in> set space_encodings \<Longrightarrow> w \<noteq> []"
  by (auto simp: space_encodings_def)

lemma set_str_strip: "set (str_strip s) \<subseteq> set s"
proof -
  have "set (str_strip s) = set (drop_leading (map rev space_encodings) (rev (drop_leading space_encodings s)))"
    by (simp add: str_strip_def)
  also have "\<dots> \<subseteq> set (rev (drop_leading space_encodings s))"
    by (rule set_drop_leading)
  also have "\<dots> \<subseteq> set s"
    using set_drop_leading [of space_encodings s] by simp
  finally show ?thesis .
qed

lemma str_strip_decomp:
  "\<exists>us vs. set us \<subseteq> set space_encodings \<and> set vs \<subseteq> set space_encodings
      \<and> s = concat us @ str_strip s @ concat vs"
proof -
  let ?l = "drop_leading space_encodings s"
  obtain us where us: "set us \<subseteq> set space_encodings" "s = concat us @ ?l"
    using drop_leading_decomp [of space_encodings s] by blast
  obtain rs where rs: "set rs \<subseteq> set (map rev space_encodings)"
    "rev ?l = concat rs @ drop_leading (map rev space_encodings) (rev ?l)"
    using drop_leading_decomp [of "map rev space_encodings" "rev ?l"] by blast
  have "?l = rev (rev ?l)" by simp
  also have "\<dots> = rev (concat rs @ rev (str_strip s))"
    using rs(2) by (simp add: str_strip_def)
  also have "\<dots> = str_strip s @ concat (map rev (rev rs))"
    by (simp add: rev_concat)
  finally have l: "?l = str_strip s @ concat (map rev (rev rs))" .
  have "set (map rev (rev rs)) \<subseteq> set space_encodings"
    using rs(1) by auto
  then show ?thesis
    using us l by (metis append.assoc)
qed

lemma str_strip_no_space_prefix:
  "w \<in> set space_encodings \<Longrightarrow> \<not> prefix w (str_strip s)"
proof
  assume w: "w \<in> set space_encodings" and p: "prefix w (str_strip s)"
  let ?l = "drop_leading space_encodings s"
  obtain rs where "rev ?l = concat rs @ drop_leading (map rev space_encodings) (rev ?l)"
    using drop_leading_decomp [of "map rev space_encodings" "rev ?l"] by blast
  then have "rev (rev ?l) = rev (concat rs @ rev (str_strip s))"
    by (simp add: str_strip_def)
  then have "?l = str_strip s @ rev (concat rs)"
    by simp
  then have "prefix (str_strip s) ?l"
    by (metis prefixI)
  then have "prefix w ?l"
    using p by (rule prefix_order.trans [rotated])
  then show False
    using drop_leading_no_prefix [OF w space_encodings_nonempty [OF w], of s] by simp
qed

lemma str_strip_no_space_suffix:
  "w \<in> set space_encodings \<Longrightarrow> \<not> suffix w (str_strip s)"
proof
  assume w: "w \<in> set space_encodings" and p: "suffix w (str_strip s)"
  let ?r = "drop_leading (map rev space_encodings) (rev (drop_leading space_encodings s))"
  have "rev w \<in> set (map rev space_encodings)" "rev w \<noteq> []"
    using w space_encodings_nonempty [OF w] by simp_all
  then have "\<not> prefix (rev w) ?r"
    by (rule drop_leading_no_prefix)
  moreover have "prefix (rev w) ?r"
    using p by (simp add: str_strip_def suffix_to_prefix)
  ultimately show False by simp
qed

section \<open>The requested variables\<close>

lemma comprehension_filter_map:
  "concat (map (\<lambda>v. if f v \<noteq> [] then [f v] else []) xs) = filter (\<lambda>v. v \<noteq> []) (map f xs)"
  by (induction xs) simp_all

lemma hourly_list_eval:
  "hourly_list hv =
     filter (\<lambda>v. v \<noteq> [])
       (map str_strip (str_split CHR '','' (case hv of None \<Rightarrow> [] | Some s \<Rightarrow> s)))"
  by (simp add: hourly_list_def comprehension_filter_map)

lemma hourly_list_entries:
  "v \<in> set (hourly_list hv) \<Longrightarrow>
     v \<noteq> [] \<and> (\<forall>w\<in>set space_encodings. \<not> prefix w v \<and> \<not> suffix w v)
     \<and> CHR '','' \<notin> set v"
proof -
  assume "v \<in> set (hourly_list hv)"
  then obtain p where p: "p \<in> set (str_split CHR '','' (case hv of None \<Rightarrow> [] | Some s \<Rightarrow> s))"
    and v: "v = str_strip p" and ne: "str_strip p \<noteq> []"
    by (auto simp: hourly_list_def)
  have "CHR '','' \<notin> set p" using p by (rule str_split_no_sep)
  then have "CHR '','' \<notin> set v" using set_str_strip [of p] v by blast
  then show ?thesis
    using v ne str_strip_no_space_prefix [of _ p] str_strip_no_space_suffix [of _ p] by simp
qed

lemma forecast_params_hourly:
  "map_of (forecast_params loc hl) ''hourly'' =
     (if hl = [] then None else Some (JStr (str_join '','' hl)))"
  by (simp add: forecast_params_def)

lemma forecast_params_no_hourly: "''hourly'' \<notin> fst ` set (forecast_params loc [])"
  by (simp add: forecast_params_def)

lemma get_forecast_fetch:
  "Fetch u p \<in> set (trace (get_forecast env clk c loc hl)) \<Longrightarrow>
     u = FORECAST_URL \<and> p = forecast_params loc hl"
  by (auto simp: get_forecast_def fail_def Let_def split: prod.splits if_splits sum.splits)

lemma weather_at_trace: "trace (weather_at env clk c loc hv) = trace (get_forecast env clk c loc (hourly_list hv))"
  by (simp add: weather_at_def fail_def Let_def split: sum.splits)

lemma weather_at_cache: "cache_after (weather_at env clk c loc hv) = cache_after (get_forecast env clk c loc (hourly_list hv))"
  by (simp add: weather_at_def fail_def Let_def split: sum.splits)

text \<open>
  C8. The requested variables are the pieces of \<^verbatim>\<open>hourly_vars\<close> between its commas
  (the pieces joined by commas give the string back, and no piece holds a comma), each
  stripped of the white space around it (a piece is its stripped form between two runs
  of white-space characters, and the stripped form neither starts nor ends with one),
  without the pieces that strip to nothing; so every requested variable is non-empty,
  neither starts nor ends with a white-space character and holds no comma. An upstream
  call of the forecast part goes to the forecast URL with \<open>forecast_params\<close>, which
  has the key \<^verbatim>\<open>hourly\<close> (the variables joined by commas) when the list is not empty
  and no such key at all when it is empty.
\<close>

theorem requested_variables_parsed:
  "hourly_list (Some s) = filter (\<lambda>v. v \<noteq> []) (map str_strip (str_split CHR '','' s))
   \<and> hourly_list None = []
   \<and> str_join '','' (str_split CHR '','' s) = s
   \<and> (\<forall>p\<in>set (str_split CHR '','' s). CHR '','' \<notin> set p)
   \<and> (\<exists>us vs. set us \<subseteq> set space_encodings \<and> set vs \<subseteq> set space_encodings
         \<and> p = concat us @ str_strip p @ concat vs)
   \<and> (\<forall>w\<in>set space_encodings. \<not> prefix w (str_strip p) \<and> \<not> suffix w (str_strip p))
   \<and> (\<forall>v\<in>set (hourly_list hv).
         v \<noteq> [] \<and> (\<forall>w\<in>set space_encodings. \<not> prefix w v \<and> \<not> suffix w v)
         \<and> CHR '','' \<notin> set v)
   \<and> (\<forall>u q. Fetch u q \<in> set (trace (weather_at env clk c loc hv)) \<longrightarrow>
         u = FORECAST_URL \<and> q = forecast_params loc (hourly_list hv)
         \<and> map_of q ''hourly'' =
             (if hourly_list hv = [] then None
              else Some (JStr (str_join '','' (hourly_list hv))))
         \<and> (hourly_list hv = [] \<longrightarrow> ''hourly'' \<notin> fst ` set q))"
proof -
  have a: "hourly_list (Some s) = filter (\<lambda>v. v \<noteq> []) (map str_strip (str_split CHR '','' s))"
    by (simp add: hourly_list_def comprehension_filter_map)
  have "str_strip [] = []"
    by (simp add: str_strip_def drop_leading_eval space_encodings_def)
  then have b: "hourly_list None = []"
    by (simp add: hourly_list_def)
  have c: "str_join '','' (str_split CHR '','' s) = s"
    by (rule str_join_split)
  have d: "\<forall>p\<in>set (str_split CHR '','' s). CHR '','' \<notin> set p"
    by (simp add: str_split_no_sep)
  have g: "\<forall>w\<in>set space_encodings. \<not> prefix w (str_strip p) \<and> \<not> suffix w (str_strip p)"
    using str_strip_no_space_prefix [of _ p] str_strip_no_space_suffix [of _ p] by blast
  have e: "\<forall>v\<in>set (hourly_list hv).
         v \<noteq> [] \<and> (\<forall>w\<in>set space_encodings. \<not> prefix w v \<and> \<not> suffix w v)
         \<and> CHR '','' \<notin> set v"
    using hourly_list_entries [of _ hv] by blast
  have f: "u = FORECAST_URL \<and> q = forecast_params loc (hourly_list hv)
         \<and> map_of q ''hourly'' =
             (if hourly_list hv = [] then None
              else Some (JStr (str_join '','' (hourly_list hv))))
         \<and> (hourly_list hv = [] \<longrightarrow> ''hourly'' \<notin> fst ` set q)"
    if "Fetch u q \<in> set (trace (weather_at env clk c loc hv))" for u q
  proof -
    have uq: "u = FORECAST_URL \<and> q = forecast_params loc (hourly_list hv)"
      using that get_forecast_fetch by (simp add: weather_at_trace)
    then show ?thesis
      using forecast_params_hourly [of loc "hourly_list hv"] forecast_params_no_hourly [of loc]
      by auto
  qed
  have f': "\<forall>u q. Fetch u q \<in> set (trace (weather_at env clk c loc hv)) \<longrightarrow>
         u = FORECAST_URL \<and> q = forecast_params loc (hourly_list hv)
         \<and> map_of q ''hourly'' =
             (if hourly_list hv = [] then None
              else Some (JStr (str_join '','' (hourly_list hv))))
         \<and> (hourly_list hv = [] \<longrightarrow> ''hourly'' \<notin> fst ` set q)"
    using f by blast
  have h: "\<exists>us vs. set us \<subseteq> set space_encodings \<and> set vs \<subseteq> set space_encodings
         \<and> p = concat us @ str_strip p @ concat vs"
    by (rule str_strip_decomp)
  show ?thesis
    by (intro conjI a b c d h g e f')
qed

lemmas handler_eval =
  get_weather_def city_given_def determine_coordinates_def weather_at_def get_forecast_def
  cache_key_def forecast_params_def cache_get_def cache_set_def fetch_json_def
  FORECAST_URL_def GEOCODE_URL_def build_response_def dict_get_def fail_def
  geocode_key_def geocode_params_def geocode_results_def location_of_top_def
  hourly_list_eval str_strip_def space_encodings_def drop_leading_eval map_weathercode_def WEATHERCODE_MAP_def
  fallback_icon_def now_int_def str_lower_def lower_char_def CACHE_TTL_SECONDS_def
  not_found_detail_def stub_env_def at_time_def new_york_def format_eval

theorem requested_variables_parsed_witness:
  "hourly_list (Some ([CHR 0xC2, CHR 0xA0] @ ''temperature_2m,, windspeed_10m ''
                       @ [CHR 0xE3, CHR 0x80, CHR 0x80]))
     = [''temperature_2m'', ''windspeed_10m'']
   \<and> hourly_list (Some [CHR 0xC2, CHR 0xA0, CHR 0x2C, CHR 0x20]) = []
   \<and> Fetch FORECAST_URL
         [(''latitude'', JFloat 40.7128), (''longitude'', JFloat (- 74.006)),
          (''current_weather'', JBool True), (''timezone'', JStr ''auto''),
          (''forecast_days'', JInt 1)]
       \<in> set (trace (weather_at (stub_env None None) (at_time 1000) Map.empty new_york
                        (Some [CHR 0xC2, CHR 0xA0, CHR 0x2C, CHR 0x20])))
   \<and> ''hourly'' \<notin> fst ` set (forecast_params new_york
                                (hourly_list (Some [CHR 0xC2, CHR 0xA0, CHR 0x2C, CHR 0x20])))
   \<and> Fetch FORECAST_URL
         [(''latitude'', JFloat 40.7128), (''longitude'', JFloat (- 74.006)),
          (''current_weather'', JBool True), (''hourly'', JStr ''temperature_2m,windspeed_10m''),
          (''timezone'', JStr ''auto''), (''forecast_days'', JInt 1)]
       \<in> set (trace (weather_at (stub_env None None) (at_time 1000) Map.empty new_york
                        (Some '' temperature_2m,, windspeed_10m '')))"
proof -
  note A = requested_variables_parsed
    [of "[CHR 0xC2, CHR 0xA0] @ ''temperature_2m,, windspeed_10m '' @ [CHR 0xE3, CHR 0x80, CHR 0x80]"
        "[]" "Some [CHR 0xC2, CHR 0xA0, CHR 0x2C, CHR 0x20]" "stub_env None None"
        "at_time 1000" Map.empty new_york]
  note B = requested_variables_parsed
    [of "'' temperature_2m,, windspeed_10m ''" "'' temperature_2m''"
        "Some '' temperature_2m,, windspeed_10m ''" "stub_env None None"
        "at_time 1000" Map.empty new_york]
  have w1: "hourly_list (Some ([CHR 0xC2, CHR 0xA0] @ ''temperature_2m,, windspeed_10m ''
                       @ [CHR 0xE3, CHR 0x80, CHR 0x80]))
     = [''temperature_2m'', ''windspeed_10m'']"
    using A [THEN conjunct1] by (simp add: handler_eval)
  have w2: "hourly_list (Some [CHR 0xC2, CHR 0xA0, CHR 0x2C, CHR 0x20]) = []"
    using A [THEN conjunct2, THEN conjunct2, THEN conjunct2, THEN conjunct2, THEN conjunct2, THEN conjunct2, THEN conjunct1] by (simp add: handler_eval)
  have w3: "Fetch FORECAST_URL
         [(''latitude'', JFloat 40.7128), (''longitude'', JFloat (- 74.006)),
          (''current_weather'', JBool True), (''timezone'', JStr ''auto''),
          (''forecast_days'', JInt 1)]
       \<in> set (trace (weather_at (stub_env None None) (at_time 1000) Map.empty new_york
                        (Some [CHR 0xC2, CHR 0xA0, CHR 0x2C, CHR 0x20])))"
    using A [THEN conjunct2, THEN conjunct2, THEN conjunct2, THEN conjunct2, THEN conjunct2, THEN conjunct2, THEN conjunct2] by (simp add: handler_eval)
  have w4: "''hourly'' \<notin> fst ` set (forecast_params new_york
                                (hourly_list (Some [CHR 0xC2, CHR 0xA0, CHR 0x2C, CHR 0x20])))"
    using A [THEN conjunct2, THEN conjunct2, THEN conjunct2, THEN conjunct2, THEN conjunct2, THEN conjunct2, THEN conjunct2] by (simp add: handler_eval)
  have w5: "Fetch FORECAST_URL
         [(''latitude'', JFloat 40.7128), (''longitude'', JFloat (- 74.006)),
          (''current_weather'', JBool True), (''hourly'', JStr ''temperature_2m,windspeed_10m''),
          (''timezone'', JStr ''auto''), (''forecast_days'', JInt 1)]
       \<in> set (trace (weather_at (stub_env None None) (at_time 1000) Map.empty new_york
                        (Some '' temperature_2m,, windspeed_10m '')))"
    using B [THEN conjunct2, THEN conjunct2, THEN conjunct2, THEN conjunct2, THEN conjunct2, THEN conjunct2, THEN conjunct1] B [THEN conjunct2, THEN conjunct2, THEN conjunct2, THEN conjunct2, THEN conjunct2, THEN conjunct2, THEN conjunct2] by (simp add: handler_eval)
  show ?thesis
    by (intro conjI w1 w2 w3 w4 w5)
qed

section \<open>The weather code\<close>






section \<open>The failures of a request\<close>

lemma cache_get_map_le: "snd (cache_get c t k) \<subseteq>\<^sub>m c"
  by (auto simp: cache_get_def map_le_def split: option.splits)

lemma location_of_top_error:
  "location_of_top env cty t = Inl e \<Longrightarrow>
     e = PyException \<or> e = HTTPException 502 ''Upstream geocoding did not return coordinates''"
  by (auto simp: location_of_top_def Let_def split: json.splits option.splits if_splits)

lemma geocode_results_error: "geocode_results g = Inl e \<Longrightarrow> e = PyException"
  by (auto simp: geocode_results_def dict_get_def split: if_splits json.splits)

lemma index0_error: "index0 x = Inl e \<Longrightarrow> e = PyException"
  by (cases x rule: index0.cases) auto

lemma get_weather_proceeds:
  "city_given city \<or> (lat \<noteq> None \<and> lon \<noteq> None) \<Longrightarrow>
     get_weather env clk c city lat lon hv =
       (case result (determine_coordinates env clk c city lat lon) of
          Inl e \<Rightarrow> fail e (cache_after (determine_coordinates env clk c city lat lon))
                    (trace (determine_coordinates env clk c city lat lon))
        | Inr loc \<Rightarrow>
            (weather_at env clk (cache_after (determine_coordinates env clk c city lat lon)) loc hv)
              \<lparr>trace := trace (determine_coordinates env clk c city lat lon)
                 @ trace (weather_at env clk (cache_after (determine_coordinates env clk c city lat lon)) loc hv)\<rparr>)"
  by (auto simp: get_weather_def Let_def split: sum.splits)

lemma determine_coordinates_error:
  "result (determine_coordinates env clk c city lat lon) = Inl e \<Longrightarrow> status_code e \<noteq> 400"
  by (auto simp: determine_coordinates_def fail_def fetch_json_def Let_def
      dest!: location_of_top_error geocode_results_error index0_error
      split: if_splits option.splits prod.splits sum.splits)

lemma build_response_error:
  "build_response env loc f = Inl e \<Longrightarrow>
     e = PyException \<or> e = HTTPException 502 ''No current weather returned by upstream API''"
proof -
  have wc: "weathercode_get w = Inl x \<Longrightarrow> x = PyException" for w x
    by (cases w) auto
  assume "build_response env loc f = Inl e"
  then show ?thesis
    by (auto simp: build_response_def dict_get_def map_weathercode_def
        split: json.splits sum.splits if_splits prod.splits dest: wc)
qed

lemma get_forecast_error:
  "result (get_forecast env clk c loc hl) = Inl e \<Longrightarrow> e = HttpxError"
  by (auto simp: get_forecast_def fail_def fetch_json_def Let_def
      split: if_splits option.splits prod.splits sum.splits)

lemma weather_at_error:
  "result (weather_at env clk c loc hv) = Inl e \<Longrightarrow> status_code e \<noteq> 400"
  by (auto simp: weather_at_def fail_def Let_def
      split: sum.splits dest!: get_forecast_error build_response_error)

text \<open>
  C4. \<open>get_weather\<close> ends with status 400 exactly when the city is missing or empty
  and the latitude or the longitude is missing; the request then fails before any
  effect. A city is given when it is present and not the empty string.
\<close>

theorem invalid_request_iff:
  "((\<exists>e. result (get_weather env clk c city lat lon hv) = Inl e \<and> status_code e = 400)
      \<longleftrightarrow> \<not> city_given city \<and> (lat = None \<or> lon = None))
   \<and> (\<not> city_given city \<and> (lat = None \<or> lon = None) \<longrightarrow>
        get_weather env clk c city lat lon hv =
          \<lparr>result = Inl (HTTPException 400 ''Provide either city or lat and lon''),
           cache_after = c, trace = []\<rparr>)
   \<and> (city_given city \<longleftrightarrow> (\<exists>s. city = Some s \<and> s \<noteq> []))"
proof -
  let ?bad = "\<not> city_given city \<and> (lat = None \<or> lon = None)"
  have a: "get_weather env clk c city lat lon hv =
          \<lparr>result = Inl (HTTPException 400 ''Provide either city or lat and lon''),
           cache_after = c, trace = []\<rparr>" if ?bad
    using that by (simp add: get_weather_def fail_def)
  have b: "status_code e \<noteq> 400"
    if "\<not> ?bad" and "result (get_weather env clk c city lat lon hv) = Inl e" for e
  proof (cases "result (determine_coordinates env clk c city lat lon)")
    have ok: "city_given city \<or> (lat \<noteq> None \<and> lon \<noteq> None)"
      using that(1) by auto
    case (Inl e')
    then have "e = e'"
      using that(2) by (simp add: get_weather_proceeds [OF ok] fail_def)
    then show ?thesis
      using Inl determine_coordinates_error by blast
  next
    have ok: "city_given city \<or> (lat \<noteq> None \<and> lon \<noteq> None)"
      using that(1) by auto
    case (Inr loc)
    then have "result (weather_at env clk (cache_after (determine_coordinates env clk c city lat lon)) loc hv) = Inl e"
      using that(2) by (simp add: get_weather_proceeds [OF ok])
    then show ?thesis
      by (rule weather_at_error)
  qed
  have c: "city_given city \<longleftrightarrow> (\<exists>s. city = Some s \<and> s \<noteq> [])"
    by (cases city) (simp_all add: city_given_def)
  have "(\<exists>e. result (get_weather env clk c city lat lon hv) = Inl e \<and> status_code e = 400) \<longleftrightarrow> ?bad"
    using a b by (cases ?bad) auto
  then show ?thesis
    using a c by blast
qed

theorem invalid_request_iff_witness:
  "get_weather (stub_env None None) (at_time 1000) Map.empty (Some []) (Some 40.7128) None None =
     \<lparr>result = Inl (HTTPException 400 ''Provide either city or lat and lon''),
      cache_after = Map.empty, trace = []\<rparr>
   \<and> result (get_weather (stub_env None None) (at_time 1000) Map.empty (Some ''Oslo'') None None None)
       = Inl HttpxError"
  using invalid_request_iff
    [of "stub_env None None" "at_time 1000" Map.empty "Some []" "Some 40.7128" None None]
    invalid_request_iff
    [of "stub_env None None" "at_time 1000" Map.empty "Some ''Oslo''" None None None]
  by (simp add: handler_eval)

section \<open>The coordinates\<close>

lemma cache_key_not_geocode_key: "cache_key loc hl \<noteq> geocode_key cty"
  by (simp add: cache_key_def geocode_key_def)

lemma forecast_url_not_geocode_url: "FORECAST_URL \<noteq> GEOCODE_URL"
  by (simp add: FORECAST_URL_def GEOCODE_URL_def)

lemma get_forecast_trace_events:
  "ev \<in> set (trace (get_forecast env clk c loc hl)) \<Longrightarrow>
     ev = CacheGet (cache_key loc hl) \<or> ev = Fetch FORECAST_URL (forecast_params loc hl)
     \<or> (\<exists>v. ev = CacheSet (cache_key loc hl) v)"
  by (auto simp: get_forecast_def fail_def Let_def split: prod.splits if_splits sum.splits)

lemma determine_coordinates_given:
  "determine_coordinates env clk c city (Some a) (Some b) =
     \<lparr>result = Inr \<lparr>name = JStr (if city_given city then the city
                                   else format_fixed 3 a @ '','' @ format_fixed 3 b),
                     latitude = a, longitude = b, country = JNull, admin1 = JNull\<rparr>,
      cache_after = c, trace = []\<rparr>"
  by (simp add: determine_coordinates_def)

lemma weather_at_location:
  "result (weather_at env clk c loc hv) = Inr r \<Longrightarrow> location r = loc"
  by (auto simp: weather_at_def fail_def Let_def build_response_def
      split: sum.splits if_splits prod.splits)

text \<open>
  C5. With both coordinates given, the location is built from the inputs: its latitude
  and longitude are the given ones, its name is the city when one is given (present
  and not empty) and otherwise the two coordinates to three decimals with a comma
  between them; nothing is read from or written to the cache and nothing is fetched.
  The whole request is then the forecast part at that location: its effects touch
  neither a geocoding key nor the geocoding URL, and a response carries the given
  coordinates.
\<close>

theorem coordinates_given_skip_geocoding:
  "determine_coordinates env clk c city (Some a) (Some b) =
     \<lparr>result = Inr \<lparr>name = JStr (if city_given city then the city
                                   else format_fixed 3 a @ '','' @ format_fixed 3 b),
                     latitude = a, longitude = b, country = JNull, admin1 = JNull\<rparr>,
      cache_after = c, trace = []\<rparr>
   \<and> get_weather env clk c city (Some a) (Some b) hv =
       weather_at env clk c
         \<lparr>name = JStr (if city_given city then the city
                        else format_fixed 3 a @ '','' @ format_fixed 3 b),
          latitude = a, longitude = b, country = JNull, admin1 = JNull\<rparr> hv
   \<and> (\<forall>ev\<in>set (trace (get_weather env clk c city (Some a) (Some b) hv)).
         \<forall>cty v p. ev \<noteq> CacheGet (geocode_key cty) \<and> ev \<noteq> CacheSet (geocode_key cty) v
                   \<and> ev \<noteq> Fetch GEOCODE_URL p)
   \<and> (\<forall>r. result (get_weather env clk c city (Some a) (Some b) hv) = Inr r \<longrightarrow>
         latitude (location r) = a \<and> longitude (location r) = b)"
proof -
  let ?loc = "\<lparr>name = JStr (if city_given city then the city
                        else format_fixed 3 a @ '','' @ format_fixed 3 b),
          latitude = a, longitude = b, country = JNull, admin1 = JNull\<rparr>"
  have gw: "get_weather env clk c city (Some a) (Some b) hv = weather_at env clk c ?loc hv"
    by (simp add: get_weather_proceeds determine_coordinates_given)
  have ev: "\<forall>cty v p. ev \<noteq> CacheGet (geocode_key cty) \<and> ev \<noteq> CacheSet (geocode_key cty) v
                   \<and> ev \<noteq> Fetch GEOCODE_URL p"
    if "ev \<in> set (trace (get_weather env clk c city (Some a) (Some b) hv))" for ev
    using that get_forecast_trace_events [of ev env clk c ?loc "hourly_list hv"]
      cache_key_not_geocode_key [of ?loc "hourly_list hv"] forecast_url_not_geocode_url
    by (auto simp: gw weather_at_trace)
  have loc: "latitude (location r) = a \<and> longitude (location r) = b"
    if "result (get_weather env clk c city (Some a) (Some b) hv) = Inr r" for r
    using that weather_at_location [of env clk c ?loc hv r] by (simp add: gw)
  show ?thesis
    using determine_coordinates_given gw ev loc by blast
qed

theorem coordinates_given_skip_geocoding_witness:
  "determine_coordinates (stub_env None None) (at_time 1000) Map.empty None
       (Some 40.7128) (Some (- 74.006))
     = \<lparr>result = Inr new_york, cache_after = Map.empty, trace = []\<rparr>
   \<and> trace (get_weather (stub_env None None) (at_time 1000) Map.empty None
         (Some 40.7128) (Some (- 74.006)) None)
     = [CacheGet ''forecast:40.7128,-74.0060:'',
        Fetch FORECAST_URL
          [(''latitude'', JFloat 40.7128), (''longitude'', JFloat (- 74.006)),
           (''current_weather'', JBool True), (''timezone'', JStr ''auto''),
           (''forecast_days'', JInt 1)]]
   \<and> latitude (location (projr (result
         (get_weather (stub_env None (Some (JObj [(''current_weather'', JObj [])])))
            (at_time 1000) Map.empty (Some ''NYC'') (Some 40.7128) (Some (- 74.006)) None))))
       = 40.7128"
  using coordinates_given_skip_geocoding
    [of "stub_env None None" "at_time 1000" Map.empty None "40.7128" "- 74.006" None]
    coordinates_given_skip_geocoding
    [of "stub_env None (Some (JObj [(''current_weather'', JObj [])]))" "at_time 1000" Map.empty
        "Some ''NYC''" "40.7128" "- 74.006" None]
  by (simp add: handler_eval)

text \<open>
  C9. A request by city (coordinates not both given) that misses the geocoding cache
  and whose geocoding call returns no candidates (the \<^verbatim>\<open>results\<close> of the body are
  missing or empty) fails with status 404 after the cache read and the upstream call:
  no entry is written (no \<open>CacheSet\<close> happens and the cache after holds nothing that
  the cache before did not hold), and a later read of the key finds nothing.
\<close>

theorem no_candidates_not_found:
  assumes "city = Some cty" and "cty \<noteq> []" and "lat = None \<or> lon = None"
    and "fst (cache_get c (t_geo_get clk) (geocode_key cty)) = JNull"
    and "http_get env GEOCODE_URL (geocode_params cty) = Some g"
    and "geocode_results g = Inr rs" and "\<not> truthy rs"
  shows "get_weather env clk c city lat lon hv =
           \<lparr>result = Inl (HTTPException 404 (not_found_detail cty)),
            cache_after = snd (cache_get c (t_geo_get clk) (geocode_key cty)),
            trace = [CacheGet (geocode_key cty), Fetch GEOCODE_URL (geocode_params cty)]\<rparr>
       \<and> (\<forall>k v. CacheSet k v \<notin> set (trace (get_weather env clk c city lat lon hv)))
       \<and> cache_after (get_weather env clk c city lat lon hv) \<subseteq>\<^sub>m c
       \<and> (\<forall>t. fst (cache_get (cache_after (get_weather env clk c city lat lon hv)) t (geocode_key cty))
              = JNull)"
proof -
  obtain c1 where cg: "cache_get c (t_geo_get clk) (geocode_key cty) = (JNull, c1)"
    using assms(4) by (cases "cache_get c (t_geo_get clk) (geocode_key cty)") simp
  have dc: "determine_coordinates env clk c city lat lon =
           \<lparr>result = Inl (HTTPException 404 (not_found_detail cty)),
            cache_after = c1,
            trace = [CacheGet (geocode_key cty), Fetch GEOCODE_URL (geocode_params cty)]\<rparr>"
    using assms cg by (auto simp: determine_coordinates_def fetch_json_def fail_def Let_def)
  have given: "city_given city \<or> (lat \<noteq> None \<and> lon \<noteq> None)"
    using assms(1,2) by (simp add: city_given_def)
  have gw: "get_weather env clk c city lat lon hv =
           \<lparr>result = Inl (HTTPException 404 (not_found_detail cty)),
            cache_after = snd (cache_get c (t_geo_get clk) (geocode_key cty)),
            trace = [CacheGet (geocode_key cty), Fetch GEOCODE_URL (geocode_params cty)]\<rparr>"
    by (simp add: get_weather_proceeds [OF given] dc cg fail_def)
  have le: "snd (cache_get c (t_geo_get clk) (geocode_key cty)) \<subseteq>\<^sub>m c"
    by (rule cache_get_map_le)
  have again: "fst (cache_get c1 t (geocode_key cty)) = JNull" for t
    using cg by (auto simp: cache_get_def split: option.splits if_splits)
  show ?thesis
    using le again by (simp add: gw cg)
qed

theorem no_candidates_not_found_witness:
  "get_weather (stub_env (Some (JObj [(''results'', JArr [])])) None) (at_time 1000) Map.empty
       (Some ''Nonexististan'') None None None
     = \<lparr>result = Inl (HTTPException 404
                       (''City '' @ [CHR 0x27] @ ''Nonexististan'' @ [CHR 0x27] @ '' not found'')),
        cache_after = Map.empty,
        trace = [CacheGet ''geocode:nonexististan'',
                 Fetch GEOCODE_URL
                   [(''name'', JStr ''Nonexististan''), (''count'', JInt 1),
                    (''language'', JStr ''en''), (''format'', JStr ''json'')]]\<rparr>"
  using no_candidates_not_found
    [of "Some ''Nonexististan''" "''Nonexististan''" None None Map.empty "at_time 1000"
        "stub_env (Some (JObj [(''results'', JArr [])])) None"
        "JObj [(''results'', JArr [])]" "JArr []" None]
  by (simp add: handler_eval)

section \<open>The forecast and the cache\<close>

lemma get_forecast_hit:
  "cache_get c (t_fc_get clk) (cache_key loc hl) = (v, c1) \<Longrightarrow> v \<noteq> JNull \<Longrightarrow>
     get_forecast env clk c loc hl =
       \<lparr>result = Inr v, cache_after = c1, trace = [CacheGet (cache_key loc hl)]\<rparr>"
  by (simp add: get_forecast_def Let_def)

lemma get_forecast_miss_ok:
  "cache_get c (t_fc_get clk) (cache_key loc hl) = (JNull, c1) \<Longrightarrow>
   http_get env FORECAST_URL (forecast_params loc hl) = Some f \<Longrightarrow>
     get_forecast env clk c loc hl =
       \<lparr>result = Inr f,
        cache_after = cache_set c1 (t_fc_set clk) (cache_key loc hl) f CACHE_TTL_SECONDS,
        trace = [CacheGet (cache_key loc hl), Fetch FORECAST_URL (forecast_params loc hl),
                 CacheSet (cache_key loc hl) f]\<rparr>"
  by (simp add: get_forecast_def fetch_json_def Let_def)

lemma get_forecast_miss_fail:
  "cache_get c (t_fc_get clk) (cache_key loc hl) = (JNull, c1) \<Longrightarrow>
   http_get env FORECAST_URL (forecast_params loc hl) = None \<Longrightarrow>
     get_forecast env clk c loc hl =
       \<lparr>result = Inl HttpxError, cache_after = c1,
        trace = [CacheGet (cache_key loc hl), Fetch FORECAST_URL (forecast_params loc hl)]\<rparr>"
  by (simp add: get_forecast_def fetch_json_def fail_def Let_def)

lemma forecast_calls_get_forecast_le: "forecast_calls (trace (get_forecast env clk c loc hl)) \<le> 1"
  by (auto simp: get_forecast_def fail_def forecast_calls_def Let_def
      split: prod.splits sum.splits)

lemma weather_at_result:
  "result (get_forecast env clk c loc (hourly_list hv)) = Inr f \<Longrightarrow>
     result (weather_at env clk c loc hv) = build_response env loc f"
  by (simp add: weather_at_def Let_def)

lemma weather_at_result_fail:
  "result (get_forecast env clk c loc (hourly_list hv)) = Inl e \<Longrightarrow>
     result (weather_at env clk c loc hv) = Inl e"
  by (simp add: weather_at_def fail_def Let_def)

lemma build_response_null: "build_response env loc JNull = Inl PyException"
  by (simp add: build_response_def dict_get_def)

lemma cache_get_after_set:
  "now_int t' \<le> now_int t + ttl \<Longrightarrow>
     cache_get (cache_set c t k v ttl) t' k = (v, cache_set c t k v ttl)"
  by (simp add: cache_get_def cache_set_def)

text \<open>
  C7. Two successive requests for the same location and the same \<^verbatim>\<open>hourly_vars\<close>,
  the first of which returned a response, the second reading the cache no later than
  the second in which the entry stored by the first expires: together they call the
  forecast service at most once. When the first called it, the first stored the body
  it received, and the second only reads the cache: it calls nothing, builds its
  response from that body and leaves the cache as it was.
\<close>

theorem second_request_served_from_cache:
  assumes "result (weather_at env1 clk1 c loc hv) = Inr r1"
    and "now_int (t_fc_get clk2) \<le> now_int (t_fc_set clk1) + CACHE_TTL_SECONDS"
  shows "forecast_calls (trace (weather_at env1 clk1 c loc hv))
           + forecast_calls (trace (weather_at env2 clk2
                                      (cache_after (weather_at env1 clk1 c loc hv)) loc hv)) \<le> 1
       \<and> (forecast_calls (trace (weather_at env1 clk1 c loc hv)) = 1 \<longrightarrow>
            (\<exists>f. trace (weather_at env1 clk1 c loc hv) =
                    [CacheGet (cache_key loc (hourly_list hv)),
                     Fetch FORECAST_URL (forecast_params loc (hourly_list hv)),
                     CacheSet (cache_key loc (hourly_list hv)) f]
                \<and> trace (weather_at env2 clk2 (cache_after (weather_at env1 clk1 c loc hv)) loc hv)
                    = [CacheGet (cache_key loc (hourly_list hv))]
                \<and> result (weather_at env2 clk2 (cache_after (weather_at env1 clk1 c loc hv)) loc hv)
                    = build_response env2 loc f
                \<and> cache_after (weather_at env2 clk2 (cache_after (weather_at env1 clk1 c loc hv)) loc hv)
                    = cache_after (weather_at env1 clk1 c loc hv)))"
proof -
  let ?hl = "hourly_list hv"
  let ?key = "cache_key loc ?hl"
  let ?o1 = "weather_at env1 clk1 c loc hv"
  let ?o2 = "weather_at env2 clk2 (cache_after ?o1) loc hv"
  obtain v c1 where cg: "cache_get c (t_fc_get clk1) ?key = (v, c1)"
    by (cases "cache_get c (t_fc_get clk1) ?key")
  show ?thesis
  proof (cases "v = JNull")
    case False
    then have "trace ?o1 = [CacheGet ?key]"
      using cg by (simp add: weather_at_trace get_forecast_hit)
    then have zero: "forecast_calls (trace ?o1) = 0"
      by (simp add: forecast_calls_def)
    have "forecast_calls (trace ?o2) \<le> 1"
      using forecast_calls_get_forecast_le [of env2 clk2 "cache_after ?o1" loc ?hl]
      by (simp add: weather_at_trace)
    then show ?thesis
      using zero by simp
  next
    case True
    then have cg0: "cache_get c (t_fc_get clk1) ?key = (JNull, c1)"
      using cg by simp
    show ?thesis
    proof (cases "http_get env1 FORECAST_URL (forecast_params loc ?hl)")
      case None
      then have "result ?o1 = Inl HttpxError"
        using cg0 by (simp add: weather_at_result_fail get_forecast_miss_fail)
      then show ?thesis
        using assms(1) by simp
    next
      case (Some f)
      have g1: "get_forecast env1 clk1 c loc ?hl =
          \<lparr>result = Inr f,
           cache_after = cache_set c1 (t_fc_set clk1) ?key f CACHE_TTL_SECONDS,
           trace = [CacheGet ?key, Fetch FORECAST_URL (forecast_params loc ?hl), CacheSet ?key f]\<rparr>"
        using cg0 Some by (rule get_forecast_miss_ok)
      have "build_response env1 loc f = Inr r1"
        using assms(1) g1 by (simp add: weather_at_result)
      then have nn: "f \<noteq> JNull"
        using build_response_null by auto
      have ca: "cache_after ?o1 = cache_set c1 (t_fc_set clk1) ?key f CACHE_TTL_SECONDS"
        by (simp add: weather_at_cache g1)
      have tr1: "trace ?o1 = [CacheGet ?key, Fetch FORECAST_URL (forecast_params loc ?hl), CacheSet ?key f]"
        by (simp add: weather_at_trace g1)
      have g2: "get_forecast env2 clk2 (cache_after ?o1) loc ?hl =
          \<lparr>result = Inr f, cache_after = cache_after ?o1, trace = [CacheGet ?key]\<rparr>"
        using cache_get_after_set [OF assms(2), of c1 ?key f] nn
        by (simp add: ca get_forecast_hit)
      have tr2: "trace ?o2 = [CacheGet ?key]"
        by (simp add: weather_at_trace g2)
      have r2: "result ?o2 = build_response env2 loc f"
        using g2 by (simp add: weather_at_result)
      have "cache_after ?o2 = cache_after (get_forecast env2 clk2 (cache_after ?o1) loc ?hl)"
        by (rule weather_at_cache)
      then have c2: "cache_after ?o2 = cache_after ?o1"
        by (simp add: g2)
      have n1: "forecast_calls (trace ?o1) = 1"
        by (simp add: tr1 forecast_calls_def)
      have n2: "forecast_calls (trace ?o2) = 0"
        by (simp add: tr2 forecast_calls_def)
      show ?thesis
        using tr1 tr2 r2 c2 n1 n2 by simp
    qed
  qed
qed

theorem second_request_served_from_cache_witness:
  "forecast_calls (trace (weather_at
       (stub_env None (Some (JObj [(''current_weather'', JObj [(''weathercode'', JInt 3)])])))
       (at_time 1000) Map.empty new_york (Some ''temperature_2m'')))
   + forecast_calls (trace (weather_at (stub_env None None) (at_time 1300)
       (cache_after (weather_at
          (stub_env None (Some (JObj [(''current_weather'', JObj [(''weathercode'', JInt 3)])])))
          (at_time 1000) Map.empty new_york (Some ''temperature_2m'')))
       new_york (Some ''temperature_2m''))) = 1
   \<and> weather_desc (projr (result (weather_at (stub_env None None) (at_time 1300)
       (cache_after (weather_at
          (stub_env None (Some (JObj [(''current_weather'', JObj [(''weathercode'', JInt 3)])])))
          (at_time 1000) Map.empty new_york (Some ''temperature_2m'')))
       new_york (Some ''temperature_2m'')))) = ''Overcast''"
  using second_request_served_from_cache
    [of "stub_env None (Some (JObj [(''current_weather'', JObj [(''weathercode'', JInt 3)])]))"
        "at_time 1000" Map.empty new_york "Some ''temperature_2m''"
        "\<lparr>location = new_york, current = JObj [(''weathercode'', JInt 3)], hourly = JObj [],
          weather_desc = ''Overcast'',
          weather_icon = [CHR 0xC3, CHR 0xA2, CHR 0xCB, CHR 0x9C, CHR 0xC3, CHR 0xAF, CHR 0xC2, CHR 0xB8]\<rparr>"
        "at_time 1300" "stub_env None None"]
  by (simp add: handler_eval forecast_calls_def)

section \<open>Failures and the cache\<close>




















section \<open>The forecast cache key\<close>

lemma digit_char_cases:
  "d < 10 \<Longrightarrow> d = 0 \<or> d = 1 \<or> d = 2 \<or> d = 3 \<or> d = 4 \<or> d = 5 \<or> d = 6 \<or> d = 7 \<or> d = 8 \<or> d = (9::nat)"
  by arith

lemma digit_value_digit_char: "d < 10 \<Longrightarrow> digit_value (digit_char d) = d"
  using digit_char_cases [of d] by (auto simp: digit_value_def digit_char_def)

lemma digit_char_digit: "digit_char d \<in> set ''0123456789''"
  by (simp add: digit_char_def)

lemma digits_not_Nil: "digits n \<noteq> []"
  by (subst digits.simps) simp

lemma set_digits: "set (digits n) \<subseteq> set ''0123456789''"
proof (induction n rule: digits.induct)
  case (1 n)
  show ?case
  proof (cases "n < 10")
    case True
    then have "digits n = [digit_char n]" by (subst digits.simps) simp
    then show ?thesis using digit_char_digit [of n] by simp
  next
    case False
    then have "digits n = digits (n div 10) @ [digit_char (n mod 10)]"
      by (subst digits.simps) simp
    then show ?thesis
      using 1 [OF False] digit_char_digit [of "n mod 10"] by simp
  qed
qed

lemma decimal_value_snoc: "decimal_value (s @ [c]) = 10 * decimal_value s + digit_value c"
  by (simp add: decimal_value_def)

lemma decimal_value_digits: "decimal_value (digits n) = n"
proof (induction n rule: digits.induct)
  case (1 n)
  show ?case
  proof (cases "n < 10")
    case True
    then have "digits n = [digit_char n]" by (subst digits.simps) simp
    then show ?thesis using True by (simp add: decimal_value_def digit_value_digit_char)
  next
    case False
    then have "digits n = digits (n div 10) @ [digit_char (n mod 10)]"
      by (subst digits.simps) simp
    then show ?thesis
      using 1 [OF False] by (simp add: decimal_value_snoc digit_value_digit_char)
  qed
qed

lemma decimal_value_zeros: "decimal_value (replicate k CHR ''0'' @ s) = decimal_value s"
proof -
  have "foldl (\<lambda>n c. 10 * n + digit_value c) 0 (replicate k CHR ''0'') = 0"
    by (induction k) (simp_all add: digit_value_def)
  then show ?thesis by (simp add: decimal_value_def)
qed

lemma round_half_even_near: "\<bar>of_int (round_half_even y) - y\<bar> \<le> 1 / 2"
proof -
  have "of_int \<lfloor>y\<rfloor> \<le> y" "y < of_int \<lfloor>y\<rfloor> + 1"
    by linarith+
  then show ?thesis
    by (auto simp: round_half_even_def Let_def abs_le_iff)
qed

lemma round_half_even_nonneg: "0 \<le> y \<Longrightarrow> 0 \<le> round_half_even y"
  by (auto simp: round_half_even_def Let_def)

lemma format_fixed_shape:
  "\<exists>ip fp. format_fixed d x = (if x < 0 then ''-'' else []) @ ip @ ''.'' @ fp
      \<and> ip \<noteq> [] \<and> length fp = d \<and> set (ip @ fp) \<subseteq> set ''0123456789''
      \<and> decimal_value (ip @ fp) = nat (round_half_even (\<bar>x\<bar> * 10 ^ d))"
proof -
  define ds where "ds = digits (nat (round_half_even (\<bar>x\<bar> * 10 ^ d)))"
  define p where "p = replicate (Suc d - length ds) CHR ''0'' @ ds"
  define ip where "ip = take (length p - d) p"
  define fp where "fp = drop (length p - d) p"
  have len: "Suc d \<le> length p"
    by (simp add: p_def)
  have f: "format_fixed d x = (if x < 0 then ''-'' else []) @ ip @ ''.'' @ fp"
    by (simp add: format_fixed_def Let_def ds_def p_def ip_def fp_def)
  have "length ip = length p - d"
    by (simp add: ip_def)
  then have "0 < length ip"
    using len by arith
  then have ip: "ip \<noteq> []"
    by auto
  have "length fp = length p - (length p - d)"
    by (simp add: fp_def)
  then have fp: "length fp = d"
    using len by arith
  have "set ds \<subseteq> set ''0123456789''"
    unfolding ds_def by (rule set_digits)
  moreover have "set (replicate (Suc d - length ds) CHR ''0'') \<subseteq> {CHR ''0''}"
    by auto
  then have "set (replicate (Suc d - length ds) CHR ''0'') \<subseteq> set ''0123456789''"
    by (rule subset_trans) simp
  ultimately have "set p \<subseteq> set ''0123456789''"
    unfolding p_def set_append by (rule Un_least [rotated])
  moreover have "ip @ fp = p"
    by (simp add: ip_def fp_def)
  ultimately have chars: "set (ip @ fp) \<subseteq> set ''0123456789''"
    by (simp only:)
  have "decimal_value p = nat (round_half_even (\<bar>x\<bar> * 10 ^ d))"
    by (simp add: p_def ds_def decimal_value_zeros decimal_value_digits)
  then have val: "decimal_value (ip @ fp) = nat (round_half_even (\<bar>x\<bar> * 10 ^ d))"
    using \<open>ip @ fp = p\<close> by (simp only:)
  show ?thesis
    using f ip fp chars val by blast
qed

lemma format_fixed_no_separator:
  "CHR '','' \<notin> set (format_fixed d x) \<and> CHR '':'' \<notin> set (format_fixed d x)"
proof -
  obtain ip fp where f: "format_fixed d x = (if x < 0 then ''-'' else []) @ ip @ ''.'' @ fp"
    and chars: "set (ip @ fp) \<subseteq> set ''0123456789''"
    using format_fixed_shape [of d x] by blast
  have "CHR '','' \<notin> set ''0123456789''" and "CHR '':'' \<notin> set ''0123456789''"
    by simp_all
  then have "CHR '','' \<notin> set (ip @ fp)" and "CHR '':'' \<notin> set (ip @ fp)"
    using chars by blast+
  then show ?thesis
    by (simp add: f)
qed

lemma append_sep_inj:
  assumes "(sep::char) \<notin> set a" and "sep \<notin> set a'" and "a @ sep # r = a' @ sep # r'"
  shows "a = a' \<and> r = r'"
proof -
  have "str_split sep (a @ sep # r) = a # str_split sep r"
    using assms(1) by (rule str_split_append_sep)
  moreover have "str_split sep (a' @ sep # r') = a' # str_split sep r'"
    using assms(2) by (rule str_split_append_sep)
  ultimately have a: "a = a'" and sp: "str_split sep r = str_split sep r'"
    using assms(3) by simp_all
  have "r = str_join [sep] (str_split sep r)"
    by (simp only: str_join_split)
  also have "\<dots> = str_join [sep] (str_split sep r')"
    by (simp only: sp)
  also have "\<dots> = r'"
    by (simp only: str_join_split)
  finally show ?thesis
    using a by simp
qed

lemma cache_key_eq_iff:
  assumes "\<forall>v\<in>set hl. v \<noteq> [] \<and> CHR '','' \<notin> set v" and "\<forall>v\<in>set hl'. v \<noteq> [] \<and> CHR '','' \<notin> set v"
  shows "cache_key loc hl = cache_key loc' hl' \<longleftrightarrow>
           format_fixed 4 (latitude loc) = format_fixed 4 (latitude loc')
           \<and> format_fixed 4 (longitude loc) = format_fixed 4 (longitude loc')
           \<and> hl = hl'"
proof
  assume eq: "cache_key loc hl = cache_key loc' hl'"
  let ?a = "format_fixed 4 (latitude loc)" and ?a' = "format_fixed 4 (latitude loc')"
  let ?b = "format_fixed 4 (longitude loc)" and ?b' = "format_fixed 4 (longitude loc')"
  have nc: "CHR '','' \<notin> set (format_fixed 4 y)" "CHR '':'' \<notin> set (format_fixed 4 y)" for y
    using format_fixed_no_separator [of 4 y] by simp_all
  have "?a @ CHR '','' # (?b @ '':'' @ str_join '','' hl) = ?a' @ CHR '','' # (?b' @ '':'' @ str_join '','' hl')"
    using eq by (simp add: cache_key_def)
  then have a: "?a = ?a'" and rest: "?b @ CHR '':'' # str_join '','' hl = ?b' @ CHR '':'' # str_join '','' hl'"
    using append_sep_inj [OF nc(1) nc(1)] by auto
  have b: "?b = ?b'" and j: "str_join '','' hl = str_join '','' hl'"
    using append_sep_inj [OF nc(2) nc(2) rest] by auto
  have "hl = hl'"
    using assms j by (intro str_join_inj [of hl "CHR '',''" hl']) auto
  then show "?a = ?a' \<and> ?b = ?b' \<and> hl = hl'"
    using a b by simp
next
  assume "format_fixed 4 (latitude loc) = format_fixed 4 (latitude loc')
           \<and> format_fixed 4 (longitude loc) = format_fixed 4 (longitude loc')
           \<and> hl = hl'"
  then show "cache_key loc hl = cache_key loc' hl'"
    by (simp add: cache_key_def)
qed

text \<open>
  C2 (as the code has it). The forecast cache key is \<^verbatim>\<open>forecast:\<close>, the latitude,
  a comma, the longitude, a colon, and the requested variables joined by commas in the
  order of the request: the list is not sorted. Each coordinate is written with its
  sign, at least one digit before the point and exactly four after it, and the digits
  are those of the coordinate's magnitude times 10000 rounded to the nearest integer.
  The key differs from every geocoding key. Two requests have the same key exactly
  when their coordinates are written alike and their lists of requested variables are
  the same sequence.
\<close>

theorem forecast_key_in_request_order:
  "cache_key loc hl =
     ''forecast:'' @ format_fixed 4 (latitude loc) @ '','' @ format_fixed 4 (longitude loc)
       @ '':'' @ str_join '','' hl
   \<and> (\<exists>ip fp. format_fixed 4 x = (if x < 0 then ''-'' else []) @ ip @ ''.'' @ fp
          \<and> ip \<noteq> [] \<and> length fp = 4 \<and> set (ip @ fp) \<subseteq> set ''0123456789''
          \<and> decimal_value (ip @ fp) = nat (round_half_even (\<bar>x\<bar> * 10 ^ 4)))
   \<and> \<bar>of_int (round_half_even (\<bar>x\<bar> * 10 ^ 4)) - \<bar>x\<bar> * 10 ^ 4\<bar> \<le> 1 / 2
   \<and> cache_key loc hl \<noteq> geocode_key cty
   \<and> (cache_key loc (hourly_list hv) = cache_key loc' (hourly_list hv') \<longleftrightarrow>
        format_fixed 4 (latitude loc) = format_fixed 4 (latitude loc')
        \<and> format_fixed 4 (longitude loc) = format_fixed 4 (longitude loc')
        \<and> hourly_list hv = hourly_list hv')"
proof -
  have wf: "\<forall>v\<in>set (hourly_list h). v \<noteq> [] \<and> CHR '','' \<notin> set v" for h
  proof
    fix v
    assume "v \<in> set (hourly_list h)"
    then show "v \<noteq> [] \<and> CHR '','' \<notin> set v"
      using hourly_list_entries [of v h] by simp
  qed
  have a: "cache_key loc hl =
     ''forecast:'' @ format_fixed 4 (latitude loc) @ '','' @ format_fixed 4 (longitude loc)
       @ '':'' @ str_join '','' hl"
    by (simp add: cache_key_def)
  show ?thesis
    using a format_fixed_shape [of 4 x] round_half_even_near [of "\<bar>x\<bar> * 10 ^ 4"]
      cache_key_not_geocode_key [of loc hl cty]
      cache_key_eq_iff [OF wf wf, of loc hv loc' hv']
    by blast
qed

theorem forecast_key_in_request_order_witness:
  "cache_key new_york (hourly_list (Some '' temperature_2m , windspeed_10m''))
     = ''forecast:40.7128,-74.0060:temperature_2m,windspeed_10m''
   \<and> cache_key new_york (hourly_list (Some '' temperature_2m , windspeed_10m''))
     = cache_key new_york (hourly_list (Some ''temperature_2m,windspeed_10m''))"
  using forecast_key_in_request_order
    [of new_york "hourly_list (Some '' temperature_2m , windspeed_10m'')" "40.7128" "[]"
        "Some '' temperature_2m , windspeed_10m''" new_york "Some ''temperature_2m,windspeed_10m''"]
  by (simp add: handler_eval)

text \<open>
  C2 as stated fails: the requests \<^verbatim>\<open>hourly_vars=temperature_2m,windspeed_10m\<close> and
  \<^verbatim>\<open>hourly_vars=windspeed_10m,temperature_2m\<close> for the same coordinates ask for
  permutations of one list and have different keys; the second, a minute after the
  first has stored its forecast, misses the cache and calls the forecast service.
\<close>

theorem permuted_variables_same_key_counterexample:
  "cache_key new_york (hourly_list (Some ''temperature_2m,windspeed_10m''))
     = ''forecast:40.7128,-74.0060:temperature_2m,windspeed_10m''
   \<and> cache_key new_york (hourly_list (Some ''windspeed_10m,temperature_2m''))
     = ''forecast:40.7128,-74.0060:windspeed_10m,temperature_2m''
   \<and> cache_key new_york (hourly_list (Some ''temperature_2m,windspeed_10m''))
     \<noteq> cache_key new_york (hourly_list (Some ''windspeed_10m,temperature_2m''))
   \<and> forecast_calls (trace (weather_at
        (stub_env None (Some (JObj [(''current_weather'', JObj [(''weathercode'', JInt 0)])])))
        (at_time 1060)
        (cache_after (weather_at
           (stub_env None (Some (JObj [(''current_weather'', JObj [(''weathercode'', JInt 0)])])))
           (at_time 1000) Map.empty new_york (Some ''temperature_2m,windspeed_10m'')))
        new_york (Some ''windspeed_10m,temperature_2m''))) = 1"
  by (simp add: handler_eval forecast_calls_def)

end
